theory Spec2Isabelle
  imports Main
begin

section \<open>JavaScript strings and values\<close>

text \<open>
  A JavaScript string is modelled as a \<open>string\<close>: one \<open>char\<close> per UTF-16 code unit below
  256 (the Latin-1 range, which holds every character of the messages and masks of the
  library). The accented letters of the Portuguese messages are written by code.
\<close>

abbreviation i_acute :: char where "i_acute \<equiv> CHR 0xED"
abbreviation a_tilde :: char where "a_tilde \<equiv> CHR 0xE3"
abbreviation c_cedilla :: char where "c_cedilla \<equiv> CHR 0xE7"
abbreviation a_acute :: char where "a_acute \<equiv> CHR 0xE1"

text \<open>The regular-expression class \<open>\d\<close> of JavaScript: the ten ASCII digits.\<close>

definition isDigit :: "char \<Rightarrow> bool" where
  "isDigit c = (c \<in> set ''0123456789'')"

text \<open>\<open>s.replace(/\D/g, '')\<close>: every character that is not a digit is removed.\<close>

definition stripNonDigits :: "string \<Rightarrow> string" where
  "stripNonDigits s = filter isDigit s"

text \<open>
  \<open>parseInt(s.charAt(i))\<close> on a character that is a decimal digit. The validators call it
  only on a string that \<open>stripNonDigits\<close> has produced, at indexes below the length they
  have checked before, so the \<open>NaN\<close> of \<open>parseInt\<close> on another character or on the empty
  string of an out-of-range \<open>charAt\<close> never arises (lemmas \<open>stripNonDigits_isDigit\<close> and
  \<open>parseInt_range\<close>).
\<close>

definition parseInt :: "char \<Rightarrow> int" where
  "parseInt c = int (of_char c) - 48"

text \<open>\<open>s.slice(a, b)\<close> for indexes \<open>0 \<le> a \<le> b\<close>, as every call of the validators has them.\<close>

definition slice :: "string \<Rightarrow> nat \<Rightarrow> nat \<Rightarrow> string" where
  "slice s a b = take (b - a) (drop a s)"

text \<open>
  The test \<open>/^(\d)\1{n}$/.test(s)\<close>: a digit followed by exactly \<open>n\<close> copies of itself.
\<close>

definition repeatedDigits :: "nat \<Rightarrow> string \<Rightarrow> bool" where
  "repeatedDigits n s = (case s of [] \<Rightarrow> False | c # cs \<Rightarrow> isDigit c \<and> cs = replicate n c)"

text \<open>
  \<open>s.toLowerCase()\<close> on code units below 256: the ASCII capitals and the Latin-1 capitals
  (\<open>0xC0\<close> to \<open>0xDE\<close>, the multiplication sign \<open>0xD7\<close> apart) move up by 32.
\<close>

definition toLowerChar :: "char \<Rightarrow> char" where
  "toLowerChar c =
     (let n = (of_char c :: nat)
      in if (65 \<le> n \<and> n \<le> 90) \<or> (192 \<le> n \<and> n \<le> 222 \<and> n \<noteq> 215)
         then char_of (n + 32) else c)"

definition toLowerCase :: "string \<Rightarrow> string" where
  "toLowerCase s = map toLowerChar s"

text \<open>
  The values stored in the \<open>details\<close> object of a validation result. \<open>JInherited k\<close> is
  the member of \<open>Object.prototype\<close> named \<open>k\<close>, which a lookup \<open>o[k]\<close> in an object literal
  \<open>o\<close> finds when \<open>o\<close> has no property \<open>k\<close> of its own.
\<close>

datatype jsval = JNum int | JStr string | JArr "jsval list" | JObj "(string \<times> jsval) list"
  | JInherited string

definition objectPrototypeMembers :: "string list" where
  "objectPrototypeMembers =
     [''constructor'', ''__defineGetter__'', ''__defineSetter__'', ''hasOwnProperty'',
      ''__lookupGetter__'', ''__lookupSetter__'', ''isPrototypeOf'', ''propertyIsEnumerable'',
      ''toString'', ''valueOf'', ''__proto__'', ''toLocaleString'']"

text \<open>
  The object every validator returns: \<open>error\<close> is a string or \<open>null\<close> (\<open>None\<close>), \<open>details\<close>
  an object, given by its properties in the order they are written, or \<open>null\<close>.
\<close>

record ValidationResult =
  isValid :: bool
  error :: "string option"
  details :: "(string \<times> jsval) list option"

text \<open>Reading a property of \<open>details\<close>.\<close>

definition detail :: "ValidationResult \<Rightarrow> string \<Rightarrow> jsval option" where
  "detail r k = (case details r of None \<Rightarrow> None | Some ps \<Rightarrow> map_of ps k)"

section \<open>BrazilRules\<close>

definition cpf :: "string \<Rightarrow> ValidationResult" where
  "cpf input =
    (let cpf = stripNonDigits input in
     if length cpf \<noteq> 11 then
       \<lparr>isValid = False,
        error = Some (''CPF deve conter exatamente 11 d'' @ [i_acute] @ ''gitos''),
        details = Some [(''length'', JNum (int (length cpf))), (''expected'', JNum 11)]\<rparr>
     else if repeatedDigits 10 cpf then
       \<lparr>isValid = False,
        error = Some (''CPF n'' @ [a_tilde] @ ''o pode ter todos os d'' @ [i_acute] @ ''gitos iguais''),
        details = Some [(''pattern'', JStr ''repeated_digits'')]\<rparr>
     else
       let sum = fold (\<lambda>i sum. sum + parseInt (cpf ! i) * (10 - int i)) [0..<9] 0;
           remainder = sum mod 11;
           digit1 = (if remainder < 2 then 0 else 11 - remainder)
       in if digit1 \<noteq> parseInt (cpf ! 9) then
            \<lparr>isValid = False,
             error = Some (''Primeiro d'' @ [i_acute] @ ''gito verificador inv'' @ [a_acute] @ ''lido''),
             details = Some [(''calculated'', JNum digit1), (''provided'', JNum (parseInt (cpf ! 9))),
                             (''sum'', JNum sum), (''remainder'', JNum remainder)]\<rparr>
          else
            let sum = fold (\<lambda>i sum. sum + parseInt (cpf ! i) * (11 - int i)) [0..<10] 0;
                remainder = sum mod 11;
                digit2 = (if remainder < 2 then 0 else 11 - remainder)
            in if digit2 \<noteq> parseInt (cpf ! 10) then
                 \<lparr>isValid = False,
                  error = Some (''Segundo d'' @ [i_acute] @ ''gito verificador inv'' @ [a_acute] @ ''lido''),
                  details = Some [(''calculated'', JNum digit2), (''provided'', JNum (parseInt (cpf ! 10))),
                                  (''sum'', JNum sum), (''remainder'', JNum remainder)]\<rparr>
               else
                 \<lparr>isValid = True,
                  error = None,
                  details = Some [(''formatted'', JStr (slice cpf 0 3 @ ''.'' @ slice cpf 3 6 @ ''.''
                                                         @ slice cpf 6 9 @ ''-'' @ slice cpf 9 11)),
                                  (''type'', JStr ''personal''),
                                  (''country'', JStr ''BR'')]\<rparr>)"

definition cnpj :: "string \<Rightarrow> ValidationResult" where
  "cnpj input =
    (let cnpj = stripNonDigits input in
     if length cnpj \<noteq> 14 then
       \<lparr>isValid = False,
        error = Some (''CNPJ deve conter exatamente 14 d'' @ [i_acute] @ ''gitos''),
        details = Some [(''length'', JNum (int (length cnpj))), (''expected'', JNum 14)]\<rparr>
     else if repeatedDigits 13 cnpj then
       \<lparr>isValid = False,
        error = Some (''CNPJ n'' @ [a_tilde] @ ''o pode ter todos os d'' @ [i_acute] @ ''gitos iguais''),
        details = Some [(''pattern'', JStr ''repeated_digits'')]\<rparr>
     else
       let weights1 = [5, 4, 3, 2, 9, 8, 7, 6, 5, 4, 3, 2];
           sum = fold (\<lambda>i sum. sum + parseInt (cnpj ! i) * (weights1 ! i)) [0..<12] 0;
           remainder = sum mod 11;
           digit1 = (if remainder < 2 then 0 else 11 - remainder)
       in if digit1 \<noteq> parseInt (cnpj ! 12) then
            \<lparr>isValid = False,
             error = Some (''Primeiro d'' @ [i_acute] @ ''gito verificador inv'' @ [a_acute] @ ''lido''),
             details = Some [(''calculated'', JNum digit1), (''provided'', JNum (parseInt (cnpj ! 12))),
                             (''sum'', JNum sum), (''remainder'', JNum remainder)]\<rparr>
          else
            let weights2 = [6, 5, 4, 3, 2, 9, 8, 7, 6, 5, 4, 3, 2];
                sum = fold (\<lambda>i sum. sum + parseInt (cnpj ! i) * (weights2 ! i)) [0..<13] 0;
                remainder = sum mod 11;
                digit2 = (if remainder < 2 then 0 else 11 - remainder)
            in if digit2 \<noteq> parseInt (cnpj ! 13) then
                 \<lparr>isValid = False,
                  error = Some (''Segundo d'' @ [i_acute] @ ''gito verificador inv'' @ [a_acute] @ ''lido''),
                  details = Some [(''calculated'', JNum digit2), (''provided'', JNum (parseInt (cnpj ! 13))),
                                  (''sum'', JNum sum), (''remainder'', JNum remainder)]\<rparr>
               else
                 \<lparr>isValid = True,
                  error = None,
                  details = Some [(''formatted'', JStr (slice cnpj 0 2 @ ''.'' @ slice cnpj 2 5 @ ''.''
                                                         @ slice cnpj 5 8 @ ''/'' @ slice cnpj 8 12
                                                         @ ''-'' @ slice cnpj 12 14)),
                                  (''type'', JStr ''company''),
                                  (''country'', JStr ''BR'')]\<rparr>)"

section \<open>PortugalRules\<close>

text \<open>
  A value thrown by the JavaScript engine: a \<open>TypeError\<close> object and its \<open>message\<close>
  (the wording of the messages is the one of V8).
\<close>

datatype thrown = TypeError string

text \<open>
  Version 1.0.1 of \<open>nif\<close> reads \<open>this.getEntityType\<close>, so its result depends on the
  receiver of the call: the rule object when it is called as \<open>PortugalRules.nif(x)\<close>,
  \<open>undefined\<close> when the function value is called on its own (module code is strict).
\<close>

datatype receiver = This_PortugalRules | This_undefined

text \<open>
  \<open>entityTypes[firstDigit] || 'unknown'\<close>: the entry of the key, else the member of
  \<open>Object.prototype\<close> that the key names (a function or an object, which is truthy), else
  \<open>unknown\<close>.
\<close>

definition getEntityType :: "string \<Rightarrow> jsval" where
  "getEntityType firstDigit =
     (let entityTypes = [(''1'', ''personal''), (''2'', ''personal''), (''3'', ''personal''),
                         (''5'', ''public_entity''), (''6'', ''non_profit''),
                         (''7'', ''other_entity''), (''8'', ''other_entity''),
                         (''9'', ''other_entity'')]
      in case map_of entityTypes firstDigit of
           Some t \<Rightarrow> JStr t
         | None \<Rightarrow> if firstDigit \<in> set objectPrototypeMembers then JInherited firstDigit
                   else JStr ''unknown'')"

text \<open>\<open>s.charAt(i)\<close>: the one-character string at \<open>i\<close>, the empty string out of range.\<close>

definition charAt :: "string \<Rightarrow> nat \<Rightarrow> string" where
  "charAt s i = (if i < length s then [s ! i] else [])"

definition nif :: "receiver \<Rightarrow> string \<Rightarrow> thrown + ValidationResult" where
  "nif this input =
    (let nif = stripNonDigits input in
     if length nif \<noteq> 9 then
       Inr \<lparr>isValid = False,
            error = Some ''NIF must contain exactly 9 digits'',
            details = Some [(''length'', JNum (int (length nif))), (''expected'', JNum 9)]\<rparr>
     else if repeatedDigits 8 nif then
       Inr \<lparr>isValid = False,
            error = Some ''NIF cannot have all digits the same'',
            details = Some [(''pattern'', JStr ''repeated_digits'')]\<rparr>
     else
       let validFirstDigits = [''1'', ''2'', ''3'', ''5'', ''6'', ''7'', ''8'', ''9''] in
       if charAt nif 0 \<notin> set validFirstDigits then
         Inr \<lparr>isValid = False,
              error = Some ''NIF must start with 1, 2, 3, 5, 6, 7, 8 or 9'',
              details = Some [(''firstDigit'', JStr (charAt nif 0)),
                              (''validFirstDigits'', JArr (map JStr validFirstDigits))]\<rparr>
       else
         let weights = [9, 8, 7, 6, 5, 4, 3, 2];
             sum = fold (\<lambda>i sum. sum + parseInt (nif ! i) * (weights ! i)) [0..<8] 0;
             remainder = sum mod 11;
             checkDigit = (if remainder < 2 then 0 else 11 - remainder)
         in if checkDigit \<noteq> parseInt (nif ! 8) then
              Inr \<lparr>isValid = False,
                   error = Some ''Invalid check digit'',
                   details = Some [(''calculated'', JNum checkDigit),
                                   (''provided'', JNum (parseInt (nif ! 8)))]\<rparr>
            else
              (case this of
                 This_undefined \<Rightarrow>
                   Inl (TypeError (''Cannot read properties of undefined (reading '' @ [CHR 0x27]
                                   @ ''getEntityType'' @ [CHR 0x27] @ '')''))
               | This_PortugalRules \<Rightarrow>
                   let entityType = getEntityType (charAt nif 0) in
                   Inr \<lparr>isValid = True,
                        error = None,
                        details = Some [(''formatted'', JStr (slice nif 0 3 @ '' '' @ slice nif 3 6
                                                               @ '' '' @ slice nif 6 9)),
                                        (''type'', entityType),
                                        (''country'', JStr ''PT'')]\<rparr>))"

definition nipc :: "string \<Rightarrow> ValidationResult" where
  "nipc input =
    (let nipc = stripNonDigits input in
     if length nipc \<noteq> 9 then
       \<lparr>isValid = False,
        error = Some ''NIPC must contain exactly 9 digits'',
        details = Some [(''length'', JNum (int (length nipc))), (''expected'', JNum 9)]\<rparr>
     else if repeatedDigits 8 nipc then
       \<lparr>isValid = False,
        error = Some ''NIPC cannot have all digits the same'',
        details = Some [(''pattern'', JStr ''repeated_digits'')]\<rparr>
     else
       let validFirstDigits = [''5'', ''6'', ''7'', ''8'', ''9''] in
       if charAt nipc 0 \<notin> set validFirstDigits then
         \<lparr>isValid = False,
          error = Some ''NIPC must start with 5, 6, 7, 8 or 9'',
          details = Some [(''firstDigit'', JStr (charAt nipc 0)),
                          (''validFirstDigits'', JArr (map JStr validFirstDigits))]\<rparr>
       else
         let weights = [9, 8, 7, 6, 5, 4, 3, 2];
             sum = fold (\<lambda>i sum. sum + parseInt (nipc ! i) * (weights ! i)) [0..<8] 0;
             remainder = sum mod 11;
             checkDigit = (if remainder < 2 then 0 else 11 - remainder)
         in if checkDigit \<noteq> parseInt (nipc ! 8) then
              \<lparr>isValid = False,
               error = Some ''Invalid check digit'',
               details = Some [(''calculated'', JNum checkDigit),
                               (''provided'', JNum (parseInt (nipc ! 8)))]\<rparr>
            else
              \<lparr>isValid = True,
               error = None,
               details = Some [(''formatted'', JStr (slice nipc 0 3 @ '' '' @ slice nipc 3 6
                                                      @ '' '' @ slice nipc 6 9)),
                               (''type'', JStr ''company''),
                               (''country'', JStr ''PT'')]\<rparr>)"

text \<open>
  The copy of the module under \<open>validators/rules\<close> is version 1.0.0 of \<open>nif\<close>: it accepts
  the first digits 1, 2 and 3 only, reads no \<open>this\<close> and always reports \<open>personal\<close>.
\<close>

definition nif_v100 :: "string \<Rightarrow> ValidationResult" where
  "nif_v100 input =
    (let nif = stripNonDigits input in
     if length nif \<noteq> 9 then
       \<lparr>isValid = False,
        error = Some ''NIF must contain exactly 9 digits'',
        details = Some [(''length'', JNum (int (length nif))), (''expected'', JNum 9)]\<rparr>
     else if repeatedDigits 8 nif then
       \<lparr>isValid = False,
        error = Some ''NIF cannot have all digits the same'',
        details = Some [(''pattern'', JStr ''repeated_digits'')]\<rparr>
     else
       let validFirstDigits = [''1'', ''2'', ''3''] in
       if charAt nif 0 \<notin> set validFirstDigits then
         \<lparr>isValid = False,
          error = Some ''Personal NIF must start with 1, 2 or 3'',
          details = Some [(''firstDigit'', JStr (charAt nif 0)),
                          (''validFirstDigits'', JArr (map JStr validFirstDigits))]\<rparr>
       else
         let weights = [9, 8, 7, 6, 5, 4, 3, 2];
             sum = fold (\<lambda>i sum. sum + parseInt (nif ! i) * (weights ! i)) [0..<8] 0;
             remainder = sum mod 11;
             checkDigit = (if remainder < 2 then 0 else 11 - remainder)
         in if checkDigit \<noteq> parseInt (nif ! 8) then
              \<lparr>isValid = False,
               error = Some ''Invalid check digit'',
               details = Some [(''calculated'', JNum checkDigit),
                               (''provided'', JNum (parseInt (nif ! 8)))]\<rparr>
            else
              \<lparr>isValid = True,
               error = None,
               details = Some [(''formatted'', JStr (slice nif 0 3 @ '' '' @ slice nif 3 6
                                                      @ '' '' @ slice nif 6 9)),
                               (''type'', JStr ''personal''),
                               (''country'', JStr ''PT'')]\<rparr>)"

section \<open>USARules\<close>

definition ssn :: "string \<Rightarrow> ValidationResult" where
  "ssn input =
    (let ssn = stripNonDigits input in
     if length ssn \<noteq> 9 then
       \<lparr>isValid = False,
        error = Some ''SSN must contain exactly 9 digits'',
        details = Some [(''length'', JNum (int (length ssn))), (''expected'', JNum 9)]\<rparr>
     else if repeatedDigits 8 ssn then
       \<lparr>isValid = False,
        error = Some ''SSN cannot have all digits the same'',
        details = Some [(''pattern'', JStr ''repeated_digits'')]\<rparr>
     else
       let area = slice ssn 0 3;
           group = slice ssn 3 5;
           serial = slice ssn 5 9
       in if area = ''000'' then
            \<lparr>isValid = False,
             error = Some ''SSN area cannot be 000'',
             details = Some [(''area'', JStr area), (''issue'', JStr ''invalid_area_000'')]\<rparr>
          else if area = ''666'' then
            \<lparr>isValid = False,
             error = Some [],
             details = Some [(''area'', JStr area), (''issue'', JStr ''invalid_area_666'')]\<rparr>
          else if charAt area 0 = ''9'' then
            \<lparr>isValid = False,
             error = Some ''SSN area cannot start with 9'',
             details = Some [(''area'', JStr area),
                             (''issue'', JStr ''invalid_area_starts_with_9'')]\<rparr>
          else if group = ''00'' then
            \<lparr>isValid = False,
             error = Some ''SSN group cannot be 00'',
             details = Some [(''group'', JStr group), (''issue'', JStr ''invalid_group_00'')]\<rparr>
          else if serial = ''0000'' then
            \<lparr>isValid = False,
             error = Some ''SSN serial number cannot be 0000'',
             details = Some [(''serial'', JStr serial),
                             (''issue'', JStr ''invalid_serial_0000'')]\<rparr>
          else
            \<lparr>isValid = True,
             error = None,
             details = Some [(''formatted'', JStr (area @ ''-'' @ group @ ''-'' @ serial)),
                             (''type'', JStr ''personal''),
                             (''country'', JStr ''US''),
                             (''parts'', JObj [(''area'', JStr area), (''group'', JStr group),
                                               (''serial'', JStr serial)])]\<rparr>)"

definition ein :: "string \<Rightarrow> ValidationResult" where
  "ein input =
    (let ein = stripNonDigits input in
     if length ein \<noteq> 9 then
       \<lparr>isValid = False,
        error = Some ''EIN must contain exactly 9 digits'',
        details = Some [(''length'', JNum (int (length ein))), (''expected'', JNum 9)]\<rparr>
     else if repeatedDigits 8 ein then
       \<lparr>isValid = False,
        error = Some ''EIN cannot have all digits the same'',
        details = Some [(''pattern'', JStr ''repeated_digits'')]\<rparr>
     else
       let prefix = slice ein 0 2;
           suffix = slice ein 2 9;
           validPrefixes =
             [''01'', ''02'', ''03'', ''04'', ''05'', ''06'', ''10'', ''11'', ''12'', ''13'', ''14'',
              ''15'', ''16'',
              ''20'', ''21'', ''22'', ''23'', ''24'', ''25'', ''26'', ''27'',
              ''30'', ''31'', ''32'', ''33'', ''34'', ''35'', ''36'', ''37'', ''38'', ''39'',
              ''40'', ''41'', ''42'', ''43'', ''44'', ''45'', ''46'', ''47'', ''48'',
              ''50'', ''51'', ''52'', ''53'', ''54'', ''55'', ''56'', ''57'', ''58'', ''59'',
              ''60'', ''61'', ''62'', ''63'', ''64'', ''65'', ''66'', ''67'', ''68'',
              ''71'', ''72'', ''73'', ''74'', ''75'', ''76'', ''77'',
              ''80'', ''81'', ''82'', ''83'', ''84'', ''85'', ''86'', ''87'', ''88'',
              ''90'', ''91'', ''92'', ''93'', ''94'', ''95'', ''96'', ''98'', ''99'']
       in if prefix \<notin> set validPrefixes then
            \<lparr>isValid = False,
             error = Some ''Invalid EIN prefix'',
             details = Some [(''prefix'', JStr prefix), (''issue'', JStr ''invalid_prefix'')]\<rparr>
          else if suffix = ''0000000'' then
            \<lparr>isValid = False,
             error = Some ''EIN suffix cannot be 0000000'',
             details = Some [(''suffix'', JStr suffix),
                             (''issue'', JStr ''invalid_suffix_all_zeros'')]\<rparr>
          else
            \<lparr>isValid = True,
             error = None,
             details = Some [(''formatted'', JStr (prefix @ ''-'' @ suffix)),
                             (''type'', JStr ''company''),
                             (''country'', JStr ''US''),
                             (''parts'', JObj [(''prefix'', JStr prefix),
                                               (''suffix'', JStr suffix)])]\<rparr>)"

section \<open>Validator\<close>

text \<open>
  A rule object maps the name of a document type to its validation function; the
  dispatcher calls the function value on its own, so a validator is a function of the
  document that returns a result or throws. A rule object is given by its own properties,
  all of them functions, as the three rule modules write them. The \<open>Map\<close> of the
  \<open>Validator\<close> takes a lower-case country code to a rule object.
\<close>

type_synonym validator = "string \<Rightarrow> thrown + ValidationResult"
type_synonym ruleset = "string \<rightharpoonup> validator"

record Validator =
  rules :: "string \<rightharpoonup> ruleset"

definition registerRules :: "Validator \<Rightarrow> string \<Rightarrow> ruleset \<Rightarrow> Validator" where
  "registerRules this countryCode' rules' =
     this\<lparr>rules := (rules this)(toLowerCase countryCode' \<mapsto> rules')\<rparr>"

text \<open>
  The result of \<open>validate\<close>: a validation result with the two properties
  \<open>documentType\<close> and \<open>countryCode\<close>, which only the branch that ran a validator sets.
  The operator \<open>||\<close> of \<open>result.error || null\<close> takes the two falsy values an error can
  have, \<open>null\<close> and the empty string, to \<open>null\<close>; a \<open>details\<close> object is truthy.
\<close>

record DispatchResult = ValidationResult +
  documentType :: "string option"
  countryCode :: "string option"

definition validate :: "Validator \<Rightarrow> string \<Rightarrow> string \<Rightarrow> string \<Rightarrow> DispatchResult" where
  "validate this document countryCode' documentType' =
    (case rules this (toLowerCase countryCode') of
       None \<Rightarrow>
         \<lparr>isValid = False,
          error = Some (''Regras de valida'' @ [c_cedilla, a_tilde] @ ''o n'' @ [a_tilde]
                        @ ''o encontradas para o pa'' @ [i_acute] @ ''s: '' @ countryCode'),
          details = None, documentType = None, countryCode = None\<rparr>
     | Some rules' \<Rightarrow>
         (case rules' documentType' of
            None \<Rightarrow>
              \<lparr>isValid = False,
               error = Some (''Validador n'' @ [a_tilde] @ ''o encontrado para o tipo: ''
                             @ documentType'),
               details = None, documentType = None, countryCode = None\<rparr>
          | Some validator \<Rightarrow>
              (case validator document of
                 Inr result \<Rightarrow>
                   \<lparr>isValid = isValid result,
                    error = (if error result = Some [] then None else error result),
                    details = details result,
                    documentType = Some documentType',
                    countryCode = Some countryCode'\<rparr>
               | Inl (TypeError message) \<Rightarrow>
                   \<lparr>isValid = False,
                    error = Some (''Erro durante valida'' @ [c_cedilla, a_tilde] @ ''o: ''
                                  @ message),
                    details = None, documentType = None, countryCode = None\<rparr>)))"

text \<open>
  \<open>ValidatorInstance\<close> after the three rule modules have been loaded, in the order the
  entry point imports them. Each rule object is given at the names of its validators,
  where \<open>rules[documentType]\<close> finds the validator; a name of a member of
  \<open>Object.prototype\<close>, or \<open>getEntityType\<close> in \<open>PortugalRules\<close> 1.0.1, finds a function that
  is no validator and is not part of these maps. \<open>nif\<close> in \<open>PortugalRules\<close> is the function
  value of version 1.0.1, which the dispatcher calls without a receiver;
  \<open>PortugalRules_v100\<close> and \<open>ValidatorInstance_v100\<close> are the rule object and the registry
  with the module of version 1.0.0 under \<open>validators/rules\<close>.
\<close>

definition BrazilRules :: ruleset where
  "BrazilRules = [''cpf'' \<mapsto> (\<lambda>d. Inr (cpf d)), ''cnpj'' \<mapsto> (\<lambda>d. Inr (cnpj d))]"

definition PortugalRules :: ruleset where
  "PortugalRules = [''nif'' \<mapsto> nif This_undefined, ''nipc'' \<mapsto> (\<lambda>d. Inr (nipc d))]"

definition USARules :: ruleset where
  "USARules = [''ssn'' \<mapsto> (\<lambda>d. Inr (ssn d)), ''ein'' \<mapsto> (\<lambda>d. Inr (ein d))]"

definition ValidatorInstance :: Validator where
  "ValidatorInstance =
     registerRules (registerRules (registerRules \<lparr>rules = Map.empty\<rparr> ''br'' BrazilRules)
                                  ''pt'' PortugalRules)
                   ''us'' USARules"

definition PortugalRules_v100 :: ruleset where
  "PortugalRules_v100 = [''nif'' \<mapsto> (\<lambda>d. Inr (nif_v100 d)), ''nipc'' \<mapsto> (\<lambda>d. Inr (nipc d))]"

definition ValidatorInstance_v100 :: Validator where
  "ValidatorInstance_v100 =
     registerRules (registerRules (registerRules \<lparr>rules = Map.empty\<rparr> ''br'' BrazilRules)
                                  ''pt'' PortugalRules_v100)
                   ''us'' USARules"

section \<open>CountriesData\<close>

text \<open>
  A document entry of a country (\<open>length\<close>, \<open>mask\<close>, \<open>type\<close>, \<open>priority\<close>) and a country.
  The \<open>documents\<close> object is the list of its properties in the order they are written,
  which is the order \<open>Object.entries\<close> lists them in (the keys are names, not indexes).
\<close>

record DocumentConfig =
  doc_length :: nat
  mask :: string
  doc_type :: string
  priority :: int

record Country =
  name :: string
  iso2 :: string
  flag :: string
  documents :: "(string \<times> DocumentConfig) list"

definition CountriesData :: "string \<rightharpoonup> Country" where
  "CountriesData =
     [''br'' \<mapsto> \<lparr>name = ''Brasil'', iso2 = ''br'', flag = ''https://flagcdn.com/w20/br.png'',
        documents =
          [(''cpf'', \<lparr>doc_length = 11, mask = ''XXX.XXX.XXX-XX'', doc_type = ''personal'',
                      priority = 1\<rparr>),
           (''cnpj'', \<lparr>doc_length = 14, mask = ''XX.XXX.XXX/XXXX-XX'', doc_type = ''company'',
                       priority = 2\<rparr>)]\<rparr>,
      ''pt'' \<mapsto> \<lparr>name = ''Portugal'', iso2 = ''pt'', flag = ''https://flagcdn.com/w20/pt.png'',
        documents =
          [(''nif'', \<lparr>doc_length = 9, mask = ''XXX XXX XXX'', doc_type = ''personal'',
                      priority = 1\<rparr>),
           (''nipc'', \<lparr>doc_length = 9, mask = ''XXX XXX XXX'', doc_type = ''company'',
                       priority = 2\<rparr>)]\<rparr>,
      ''us'' \<mapsto> \<lparr>name = ''United States'', iso2 = ''us'',
        flag = ''https://flagcdn.com/w20/us.png'',
        documents =
          [(''ssn'', \<lparr>doc_length = 9, mask = ''XXX-XX-XXXX'', doc_type = ''personal'',
                      priority = 1\<rparr>),
           (''ein'', \<lparr>doc_length = 9, mask = ''XX-XXXXXXX'', doc_type = ''company'',
                       priority = 2\<rparr>)]\<rparr>]"

section \<open>FormatManager\<close>

text \<open>
  The fields of a \<open>FormatManager\<close> that its methods read and write; \<open>input_value\<close> is
  \<open>this.input.value\<close>, and \<open>currentDocument\<close> is \<open>null\<close> (\<open>None\<close>) or the name of a
  document type.
\<close>

record FormatManager =
  input_value :: string
  countries :: "string \<rightharpoonup> Country"
  selectedCountry :: string
  currentDocument :: "string option"

text \<open>
  \<open>detectDocumentType\<close> writes \<open>this.currentDocument\<close>. The sort of JavaScript is stable, as
  \<open>sort_key\<close> is. With a country that has no document, \<open>documents[0]\<close> and
  \<open>documents[documents.length - 1]\<close> are \<open>undefined\<close> and reading their index 0 throws.
  \<open>countries\<close> holds the properties of the countries object; when the selected country
  is none of them but names a member of \<open>Object.prototype\<close>, the lookup finds that member,
  which has no \<open>documents\<close>, and \<open>Object.entries(undefined)\<close> throws.
\<close>

definition detectDocumentType :: "FormatManager \<Rightarrow> thrown + FormatManager" where
  "detectDocumentType this =
    (let value = stripNonDigits (input_value this) in
     case countries this (selectedCountry this) of
       None \<Rightarrow>
         if selectedCountry this \<in> set objectPrototypeMembers
         then Inl (TypeError ''Cannot convert undefined or null to object'')
         else Inr this
     | Some country \<Rightarrow>
         let documents = sort_key (\<lambda>entry. priority (snd entry)) (documents country) in
         if length value = 0 then
           (case documents of
              [] \<Rightarrow> Inl (TypeError (''Cannot read properties of undefined (reading ''
                                    @ [CHR 0x27] @ ''0'' @ [CHR 0x27] @ '')''))
            | first # _ \<Rightarrow> Inr (this\<lparr>currentDocument := Some (fst first)\<rparr>))
         else
           (case find (\<lambda>(docType, docConfig). length value \<le> doc_length docConfig) documents of
              Some (docType, docConfig) \<Rightarrow> Inr (this\<lparr>currentDocument := Some docType\<rparr>)
            | None \<Rightarrow>
                (case documents of
                   [] \<Rightarrow> Inl (TypeError (''Cannot read properties of undefined (reading ''
                                         @ [CHR 0x27] @ ''0'' @ [CHR 0x27] @ '')''))
                 | _ # _ \<Rightarrow> Inr (this\<lparr>currentDocument := Some (fst (last documents))\<rparr>))))"

text \<open>
  The loop of \<open>applyMask\<close>: \<open>i\<close> walks the mask, \<open>valueIndex\<close> the value, and the loop
  runs while both are in range.
\<close>

function applyMask_loop :: "string \<Rightarrow> string \<Rightarrow> nat \<Rightarrow> nat \<Rightarrow> string \<Rightarrow> string" where
  "applyMask_loop value mask' i valueIndex formatted =
     (if i < length mask' \<and> valueIndex < length value then
        if mask' ! i = CHR ''X'' then
          applyMask_loop value mask' (i + 1) (valueIndex + 1) (formatted @ [value ! valueIndex])
        else
          applyMask_loop value mask' (i + 1) valueIndex (formatted @ [mask' ! i])
      else formatted)"
  by pat_completeness auto
termination
  by (relation "measure (\<lambda>(value, mask', i, valueIndex, formatted). length mask' - i)") auto

declare applyMask_loop.simps [simp del]

definition applyMask :: "string \<Rightarrow> string \<Rightarrow> string" where
  "applyMask value mask' = applyMask_loop value mask' 0 0 []"

text \<open>
  The two loops of \<open>calculateCursorPosition\<close>. The first counts the digits of \<open>oldValue\<close>
  at the indexes below \<open>oldCursor\<close>; the second walks \<open>newValue\<close> and leaves by \<open>break\<close> at
  the first digit that makes \<open>numbersFound\<close> exceed the count.
\<close>

function countNumbers_loop :: "string \<Rightarrow> int \<Rightarrow> nat \<Rightarrow> nat \<Rightarrow> nat" where
  "countNumbers_loop oldValue oldCursor i numbersBeforeCursor =
     (if int i < oldCursor \<and> i < length oldValue then
        countNumbers_loop oldValue oldCursor (i + 1)
          (if isDigit (oldValue ! i) then numbersBeforeCursor + 1 else numbersBeforeCursor)
      else numbersBeforeCursor)"
  by pat_completeness auto
termination
  by (relation "measure (\<lambda>(oldValue, oldCursor, i, n). length oldValue - i)") auto

declare countNumbers_loop.simps [simp del]

function newCursor_loop :: "string \<Rightarrow> nat \<Rightarrow> nat \<Rightarrow> nat \<Rightarrow> nat \<Rightarrow> nat" where
  "newCursor_loop newValue numbersBeforeCursor i numbersFound newCursor =
     (if i < length newValue then
        if isDigit (newValue ! i) then
          if numbersFound + 1 > numbersBeforeCursor then newCursor
          else newCursor_loop newValue numbersBeforeCursor (i + 1) (numbersFound + 1) (i + 1)
        else newCursor_loop newValue numbersBeforeCursor (i + 1) numbersFound (i + 1)
      else newCursor)"
  by pat_completeness auto
termination
  by (relation "measure (\<lambda>(newValue, n, i, found, cur). length newValue - i)") auto

declare newCursor_loop.simps [simp del]

definition calculateCursorPosition :: "string \<Rightarrow> string \<Rightarrow> int \<Rightarrow> nat" where
  "calculateCursorPosition oldValue newValue oldCursor =
     (let numbersBeforeCursor = countNumbers_loop oldValue oldCursor 0 0
      in newCursor_loop newValue numbersBeforeCursor 0 0 0)"

section \<open>Notions of the specification\<close>

text \<open>
  The specification speaks of a digit string whose digits are all identical, and of a
  check digit: the weighted sum of digits, its remainder modulo 11, and the digit 0 when
  the remainder is below 2, 11 minus the remainder otherwise. The definitions of this
  section follow its words; the definitions above follow the code.
\<close>

definition allIdentical :: "string \<Rightarrow> bool" where
  "allIdentical s = (\<forall>c \<in> set s. c = hd s)"

definition check_digit_spec :: "int list \<Rightarrow> string \<Rightarrow> int \<times> int \<times> int" where
  "check_digit_spec weights digits =
     (let sum = sum_list (map2 (\<lambda>w c. parseInt c * w) weights digits);
          remainder = sum mod 11
      in (sum, remainder, if remainder < 2 then 0 else 11 - remainder))"

text \<open>
  The walk of the specification over a mask: nothing once the digits are exhausted; a
  placeholder takes the next digit; any other character is copied.
\<close>

fun applyMask_spec :: "string \<Rightarrow> string \<Rightarrow> string" where
  "applyMask_spec [] m = []"
| "applyMask_spec (d # ds) [] = []"
| "applyMask_spec (d # ds) (c # m) =
     (if c = CHR ''X'' then d # applyMask_spec ds m else c # applyMask_spec (d # ds) m)"

text \<open>The number of placeholders of a mask.\<close>

definition placeholders :: "string \<Rightarrow> nat" where
  "placeholders m = length (filter (\<lambda>c. c = CHR ''X'') m)"

text \<open>The category the specification derives from the first digit of a NIF.\<close>

definition nif_category_spec :: "char \<Rightarrow> string" where
  "nif_category_spec c =
     (if c \<in> set ''123'' then ''personal''
      else if c = CHR ''5'' then ''public_entity''
      else if c = CHR ''6'' then ''non_profit''
      else if c \<in> set ''789'' then ''other_entity''
      else ''unknown'')"

text \<open>
  The index of the digit of \<open>s\<close> that \<open>n\<close> digits precede, or the length of \<open>s\<close> when it
  has at most \<open>n\<close> digits.
\<close>

fun digitIndex :: "string \<Rightarrow> nat \<Rightarrow> nat" where
  "digitIndex [] n = 0"
| "digitIndex (c # cs) n =
     (if isDigit c then (case n of 0 \<Rightarrow> 0 | Suc k \<Rightarrow> Suc (digitIndex cs k))
      else Suc (digitIndex cs n))"

text \<open>
  The index immediately after the \<open>n\<close>-th digit of \<open>s\<close>, which is how the specification
  describes the new cursor (0 when \<open>n\<close> is 0, the length of \<open>s\<close> when it has fewer digits).
\<close>

fun afterNthDigit :: "string \<Rightarrow> nat \<Rightarrow> nat" where
  "afterNthDigit s 0 = 0"
| "afterNthDigit [] (Suc n) = 0"
| "afterNthDigit (c # cs) (Suc n) =
     Suc (if isDigit c then afterNthDigit cs n else afterNthDigit cs (Suc n))"

text \<open>The number of digits of a string.\<close>

definition countDigits :: "string \<Rightarrow> nat" where
  "countDigits s = length (filter isDigit s)"

text \<open>
  The invariant of the specification on a validation result: a valid result has no error
  and its details hold the strings \<open>formatted\<close>, \<open>type\<close> (the category) and \<open>country\<close>; a
  failed result has a non-empty error message.
\<close>

definition hasString :: "ValidationResult \<Rightarrow> string \<Rightarrow> bool" where
  "hasString r k = (case detail r k of Some (JStr v) \<Rightarrow> True | _ \<Rightarrow> False)"

definition result_invariant :: "ValidationResult \<Rightarrow> bool" where
  "result_invariant r =
     (if isValid r then
        error r = None \<and> hasString r ''formatted'' \<and> hasString r ''type'' \<and> hasString r ''country''
      else (case error r of None \<Rightarrow> False | Some e \<Rightarrow> e \<noteq> []))"

text \<open>The string \<open>details.formatted\<close> of a result, when it has one.\<close>

definition formatted_of :: "ValidationResult \<Rightarrow> string option" where
  "formatted_of r = (case detail r ''formatted'' of Some (JStr f) \<Rightarrow> Some f | _ \<Rightarrow> None)"

section \<open>Digit strings\<close>

lemma stripNonDigits_isDigit: "c \<in> set (stripNonDigits s) \<Longrightarrow> isDigit c"
  by (simp add: stripNonDigits_def)

lemma parseInt_range: "isDigit c \<Longrightarrow> 0 \<le> parseInt c \<and> parseInt c \<le> 9"
  by (auto simp: isDigit_def parseInt_def)

lemma stripNonDigits_idem: "stripNonDigits (stripNonDigits s) = stripNonDigits s"
  by (simp add: stripNonDigits_def)

lemma allIdentical_replicate: "s \<noteq> [] \<Longrightarrow> allIdentical s \<longleftrightarrow> s = replicate (length s) (hd s)"
  unfolding allIdentical_def
  by (metis in_set_replicate replicate_length_same)

lemma repeatedDigits_stripped:
  assumes "length (stripNonDigits s) = Suc n"
  shows "repeatedDigits n (stripNonDigits s) \<longleftrightarrow> allIdentical (stripNonDigits s)"
proof (cases "stripNonDigits s")
  case Nil
  with assms show ?thesis by simp
next
  case (Cons c cs)
  then have "isDigit c" using stripNonDigits_isDigit[of c s] by simp
  moreover have "length cs = n" using assms Cons by simp
  ultimately show ?thesis
    using Cons allIdentical_replicate[of "c # cs"]
    by (auto simp: repeatedDigits_def)
qed

lemma replicate_numeral: "replicate (numeral k) x = x # replicate (pred_numeral k) x"
  by (simp add: numeral_eq_Suc)

lemma upt_9: "[0..<9] = [0, 1, 2, 3, 4, 5, 6, 7, 8]"
  by (simp add: upt_rec)

lemma upt_10: "[0..<10] = [0, 1, 2, 3, 4, 5, 6, 7, 8, 9]"
  by (simp add: upt_rec)

section \<open>CPF\<close>

lemma length_11_elems:
  "length d = 11 \<Longrightarrow> d = [d!0, d!1, d!2, d!3, d!4, d!5, d!6, d!7, d!8, d!9, d!10]"
  by (rule nth_equalityI) (auto simp: nth_Cons' less_Suc_eq eval_nat_numeral)

lemma cpf_sums:
  assumes "length d = 11"
  shows "fold (\<lambda>i sum. sum + parseInt (d ! i) * (10 - int i)) [0..<9] 0
       = sum_list (map2 (\<lambda>w c. parseInt c * w) [10, 9, 8, 7, 6, 5, 4, 3, 2] (take 9 d))"
    and "fold (\<lambda>i sum. sum + parseInt (d ! i) * (11 - int i)) [0..<10] 0
       = sum_list (map2 (\<lambda>w c. parseInt c * w) [11, 10, 9, 8, 7, 6, 5, 4, 3, 2] (take 10 d))"
    and "slice d 0 3 @ ''.'' @ slice d 3 6 @ ''.'' @ slice d 6 9 @ ''-'' @ slice d 9 11
       = [d!0, d!1, d!2, CHR ''.'', d!3, d!4, d!5, CHR ''.'', d!6, d!7, d!8, CHR ''-'', d!9, d!10]"
proof -
  obtain a0 a1 a2 a3 a4 a5 a6 a7 a8 a9 a10 where d: "d = [a0,a1,a2,a3,a4,a5,a6,a7,a8,a9,a10]"
    using length_11_elems[OF assms] by blast
  show "fold (\<lambda>i sum. sum + parseInt (d ! i) * (10 - int i)) [0..<9] 0
       = sum_list (map2 (\<lambda>w c. parseInt c * w) [10, 9, 8, 7, 6, 5, 4, 3, 2] (take 9 d))"
    by (simp add: d upt_9)
  show "fold (\<lambda>i sum. sum + parseInt (d ! i) * (11 - int i)) [0..<10] 0
       = sum_list (map2 (\<lambda>w c. parseInt c * w) [11, 10, 9, 8, 7, 6, 5, 4, 3, 2] (take 10 d))"
    by (simp add: d upt_10)
  show "slice d 0 3 @ ''.'' @ slice d 3 6 @ ''.'' @ slice d 6 9 @ ''-'' @ slice d 9 11
       = [d!0, d!1, d!2, CHR ''.'', d!3, d!4, d!5, CHR ''.'', d!6, d!7, d!8, CHR ''-'', d!9, d!10]"
    by (simp add: d slice_def)
qed

lemma cpf_example_valid:
  "cpf ''11144477735'' = \<lparr>isValid = True, error = None,
      details = Some [(''formatted'', JStr ''111.444.777-35''), (''type'', JStr ''personal''),
                      (''country'', JStr ''BR'')]\<rparr>"
  by (simp add: cpf_def stripNonDigits_def isDigit_def repeatedDigits_def Let_def upt_9 upt_10
        parseInt_def slice_def replicate_numeral)

lemma cpf_example_repeated:
  "cpf ''11111111111'' = \<lparr>isValid = False,
      error = Some (''CPF n'' @ [a_tilde] @ ''o pode ter todos os d'' @ [i_acute] @ ''gitos iguais''),
      details = Some [(''pattern'', JStr ''repeated_digits'')]\<rparr>"
  by (simp add: cpf_def stripNonDigits_def isDigit_def repeatedDigits_def Let_def
        replicate_numeral)

text \<open>
  C1. Let \<open>d\<close> be the digits of the input, 11 of them and not all identical. The first
  check digit of \<open>cpf\<close> is computed from the weighted sum of \<open>d[0..8]\<close> under the weights 10
  down to 2 and compared to \<open>d[9]\<close>, the second from \<open>d[0..9]\<close> under the weights 11 down to
  2 and compared to \<open>d[10]\<close>; a mismatch gives an invalid result whose details hold
  calculated, provided, sum and remainder, and success gives the digits in the shape
  \<open>XXX.XXX.XXX-XX\<close>. \<open>11144477735\<close> is valid with formatted \<open>111.444.777-35\<close>, and
  \<open>11111111111\<close> fails with the repeated-digit error.
\<close>

theorem cpf_check_digits:
  assumes "length (stripNonDigits s) = 11" and "\<not> allIdentical (stripNonDigits s)"
  shows "cpf s =
     (let d = stripNonDigits s;
          (sum1, remainder1, digit1) = check_digit_spec [10, 9, 8, 7, 6, 5, 4, 3, 2] (take 9 d);
          (sum2, remainder2, digit2) = check_digit_spec [11, 10, 9, 8, 7, 6, 5, 4, 3, 2] (take 10 d)
      in if digit1 \<noteq> parseInt (d ! 9) then
           \<lparr>isValid = False,
            error = Some (''Primeiro d'' @ [i_acute] @ ''gito verificador inv'' @ [a_acute] @ ''lido''),
            details = Some [(''calculated'', JNum digit1), (''provided'', JNum (parseInt (d ! 9))),
                            (''sum'', JNum sum1), (''remainder'', JNum remainder1)]\<rparr>
         else if digit2 \<noteq> parseInt (d ! 10) then
           \<lparr>isValid = False,
            error = Some (''Segundo d'' @ [i_acute] @ ''gito verificador inv'' @ [a_acute] @ ''lido''),
            details = Some [(''calculated'', JNum digit2), (''provided'', JNum (parseInt (d ! 10))),
                            (''sum'', JNum sum2), (''remainder'', JNum remainder2)]\<rparr>
         else
           \<lparr>isValid = True, error = None,
            details = Some [(''formatted'', JStr [d!0, d!1, d!2, CHR ''.'', d!3, d!4, d!5, CHR ''.'',
                                                 d!6, d!7, d!8, CHR ''-'', d!9, d!10]),
                            (''type'', JStr ''personal''), (''country'', JStr ''BR'')]\<rparr>)
   \<and> cpf ''11144477735'' = \<lparr>isValid = True, error = None,
        details = Some [(''formatted'', JStr ''111.444.777-35''), (''type'', JStr ''personal''),
                        (''country'', JStr ''BR'')]\<rparr>
   \<and> cpf ''11111111111'' = \<lparr>isValid = False,
        error = Some (''CPF n'' @ [a_tilde] @ ''o pode ter todos os d'' @ [i_acute] @ ''gitos iguais''),
        details = Some [(''pattern'', JStr ''repeated_digits'')]\<rparr>"
proof -
  let ?d = "stripNonDigits s"
  have rep: "\<not> repeatedDigits 10 ?d"
    using assms repeatedDigits_stripped[of s 10] by simp
  have general: "cpf s =
     (let d = stripNonDigits s;
          (sum1, remainder1, digit1) = check_digit_spec [10, 9, 8, 7, 6, 5, 4, 3, 2] (take 9 d);
          (sum2, remainder2, digit2) = check_digit_spec [11, 10, 9, 8, 7, 6, 5, 4, 3, 2] (take 10 d)
      in if digit1 \<noteq> parseInt (d ! 9) then
           \<lparr>isValid = False,
            error = Some (''Primeiro d'' @ [i_acute] @ ''gito verificador inv'' @ [a_acute] @ ''lido''),
            details = Some [(''calculated'', JNum digit1), (''provided'', JNum (parseInt (d ! 9))),
                            (''sum'', JNum sum1), (''remainder'', JNum remainder1)]\<rparr>
         else if digit2 \<noteq> parseInt (d ! 10) then
           \<lparr>isValid = False,
            error = Some (''Segundo d'' @ [i_acute] @ ''gito verificador inv'' @ [a_acute] @ ''lido''),
            details = Some [(''calculated'', JNum digit2), (''provided'', JNum (parseInt (d ! 10))),
                            (''sum'', JNum sum2), (''remainder'', JNum remainder2)]\<rparr>
         else
           \<lparr>isValid = True, error = None,
            details = Some [(''formatted'', JStr [d!0, d!1, d!2, CHR ''.'', d!3, d!4, d!5, CHR ''.'',
                                                 d!6, d!7, d!8, CHR ''-'', d!9, d!10]),
                            (''type'', JStr ''personal''), (''country'', JStr ''BR'')]\<rparr>)"
    unfolding cpf_def check_digit_spec_def Let_def
    using rep assms(1) by (simp only: cpf_sums[OF assms(1)] if_False if_True simp_thms split_conv)
  show ?thesis
    using general cpf_example_valid cpf_example_repeated by blast
qed

theorem cpf_check_digits_witness:
  "length (stripNonDigits ''529.982.247-25'') = 11 \<and> \<not> allIdentical (stripNonDigits ''529.982.247-25'')
   \<and> cpf ''529.982.247-25'' = \<lparr>isValid = True, error = None,
        details = Some [(''formatted'', JStr ''529.982.247-25''), (''type'', JStr ''personal''),
                        (''country'', JStr ''BR'')]\<rparr>"
proof -
  have d: "stripNonDigits ''529.982.247-25'' = ''52998224725''"
    by (simp add: stripNonDigits_def isDigit_def)
  have h1: "length (stripNonDigits ''529.982.247-25'') = 11" by (simp add: d)
  have h2: "\<not> allIdentical (stripNonDigits ''529.982.247-25'')" by (simp add: d allIdentical_def)
  show ?thesis
    using cpf_check_digits[OF h1 h2] h1 h2
    by (simp add: d check_digit_spec_def parseInt_def Let_def)
qed

section \<open>SSN and NIF\<close>

lemma upt_8: "[0..<8] = [0, 1, 2, 3, 4, 5, 6, 7]"
  by (simp add: upt_rec)

lemma length_9_elems:
  "length d = 9 \<Longrightarrow> d = [d!0, d!1, d!2, d!3, d!4, d!5, d!6, d!7, d!8]"
  by (rule nth_equalityI) (auto simp: nth_Cons' less_Suc_eq eval_nat_numeral)

lemma digits_9_slices:
  assumes "length d = 9"
  shows "slice d 0 3 = [d!0, d!1, d!2]" and "slice d 3 5 = [d!3, d!4]"
    and "slice d 5 9 = [d!5, d!6, d!7, d!8]"
    and "charAt (slice d 0 3) 0 = [d!0]"
proof -
  obtain a0 a1 a2 a3 a4 a5 a6 a7 a8 where d: "d = [a0,a1,a2,a3,a4,a5,a6,a7,a8]"
    using length_9_elems[OF assms] by blast
  show "slice d 0 3 = [d!0, d!1, d!2]" by (simp add: d slice_def)
  show "slice d 3 5 = [d!3, d!4]" by (simp add: d slice_def)
  show "slice d 5 9 = [d!5, d!6, d!7, d!8]" by (simp add: d slice_def)
  show "charAt (slice d 0 3) 0 = [d!0]" by (simp add: d slice_def charAt_def)
qed

lemma ssn_example_000:
  "ssn ''000456789'' = \<lparr>isValid = False, error = Some ''SSN area cannot be 000'',
      details = Some [(''area'', JStr ''000''), (''issue'', JStr ''invalid_area_000'')]\<rparr>"
  by (simp add: ssn_def stripNonDigits_def isDigit_def repeatedDigits_def Let_def slice_def
        replicate_numeral)

lemma ssn_example_valid:
  "ssn ''123456789'' = \<lparr>isValid = True, error = None,
      details = Some [(''formatted'', JStr ''123-45-6789''), (''type'', JStr ''personal''),
                      (''country'', JStr ''US''),
                      (''parts'', JObj [(''area'', JStr ''123''), (''group'', JStr ''45''),
                                        (''serial'', JStr ''6789'')])]\<rparr>"
  by (simp add: ssn_def stripNonDigits_def isDigit_def repeatedDigits_def Let_def slice_def
        replicate_numeral charAt_def)

text \<open>
  C7. Let \<open>d\<close> be the digits of the input, 9 of them and not all identical, with area
  \<open>d[0..2]\<close>, group \<open>d[3..4]\<close> and serial \<open>d[5..8]\<close>. \<open>ssn\<close> rejects area 000, area 666,
  an area that starts with 9, group 00 and serial 0000, each with an issue tag of its own
  in the details, and otherwise succeeds with formatted area-group-serial and the three
  parts in the details. \<open>000456789\<close> is invalid for its area and \<open>123456789\<close> is valid.
\<close>

theorem ssn_area_group_serial:
  assumes "length (stripNonDigits s) = 9" and "\<not> allIdentical (stripNonDigits s)"
  shows "ssn s =
     (let d = stripNonDigits s;
          area = [d!0, d!1, d!2]; group = [d!3, d!4]; serial = [d!5, d!6, d!7, d!8]
      in if area = ''000'' then
           \<lparr>isValid = False, error = Some ''SSN area cannot be 000'',
            details = Some [(''area'', JStr area), (''issue'', JStr ''invalid_area_000'')]\<rparr>
         else if area = ''666'' then
           \<lparr>isValid = False, error = Some [],
            details = Some [(''area'', JStr area), (''issue'', JStr ''invalid_area_666'')]\<rparr>
         else if d ! 0 = CHR ''9'' then
           \<lparr>isValid = False, error = Some ''SSN area cannot start with 9'',
            details = Some [(''area'', JStr area),
                            (''issue'', JStr ''invalid_area_starts_with_9'')]\<rparr>
         else if group = ''00'' then
           \<lparr>isValid = False, error = Some ''SSN group cannot be 00'',
            details = Some [(''group'', JStr group), (''issue'', JStr ''invalid_group_00'')]\<rparr>
         else if serial = ''0000'' then
           \<lparr>isValid = False, error = Some ''SSN serial number cannot be 0000'',
            details = Some [(''serial'', JStr serial),
                            (''issue'', JStr ''invalid_serial_0000'')]\<rparr>
         else
           \<lparr>isValid = True, error = None,
            details = Some [(''formatted'', JStr (area @ ''-'' @ group @ ''-'' @ serial)),
                            (''type'', JStr ''personal''), (''country'', JStr ''US''),
                            (''parts'', JObj [(''area'', JStr area), (''group'', JStr group),
                                              (''serial'', JStr serial)])]\<rparr>)
   \<and> ssn ''000456789'' = \<lparr>isValid = False, error = Some ''SSN area cannot be 000'',
        details = Some [(''area'', JStr ''000''), (''issue'', JStr ''invalid_area_000'')]\<rparr>
   \<and> isValid (ssn ''123456789'')"
proof -
  have rep: "\<not> repeatedDigits 8 (stripNonDigits s)"
    using assms repeatedDigits_stripped[of s 8] by simp
  have "ssn s =
     (let d = stripNonDigits s;
          area = [d!0, d!1, d!2]; group = [d!3, d!4]; serial = [d!5, d!6, d!7, d!8]
      in if area = ''000'' then
           \<lparr>isValid = False, error = Some ''SSN area cannot be 000'',
            details = Some [(''area'', JStr area), (''issue'', JStr ''invalid_area_000'')]\<rparr>
         else if area = ''666'' then
           \<lparr>isValid = False, error = Some [],
            details = Some [(''area'', JStr area), (''issue'', JStr ''invalid_area_666'')]\<rparr>
         else if d ! 0 = CHR ''9'' then
           \<lparr>isValid = False, error = Some ''SSN area cannot start with 9'',
            details = Some [(''area'', JStr area),
                            (''issue'', JStr ''invalid_area_starts_with_9'')]\<rparr>
         else if group = ''00'' then
           \<lparr>isValid = False, error = Some ''SSN group cannot be 00'',
            details = Some [(''group'', JStr group), (''issue'', JStr ''invalid_group_00'')]\<rparr>
         else if serial = ''0000'' then
           \<lparr>isValid = False, error = Some ''SSN serial number cannot be 0000'',
            details = Some [(''serial'', JStr serial),
                            (''issue'', JStr ''invalid_serial_0000'')]\<rparr>
         else
           \<lparr>isValid = True, error = None,
            details = Some [(''formatted'', JStr (area @ ''-'' @ group @ ''-'' @ serial)),
                            (''type'', JStr ''personal''), (''country'', JStr ''US''),
                            (''parts'', JObj [(''area'', JStr area), (''group'', JStr group),
                                              (''serial'', JStr serial)])]\<rparr>)"
    unfolding ssn_def Let_def
    using rep assms(1)
    by (simp add: digits_9_slices[OF assms(1)] charAt_def)
  then show ?thesis
    using ssn_example_000 ssn_example_valid by simp
qed

theorem ssn_area_group_serial_witness:
  "length (stripNonDigits ''666-12-3456'') = 9 \<and> \<not> allIdentical (stripNonDigits ''666-12-3456'')
   \<and> ssn ''666-12-3456'' = \<lparr>isValid = False, error = Some [],
        details = Some [(''area'', JStr ''666''), (''issue'', JStr ''invalid_area_666'')]\<rparr>"
proof -
  have d: "stripNonDigits ''666-12-3456'' = ''666123456''"
    by (simp add: stripNonDigits_def isDigit_def)
  have h1: "length (stripNonDigits ''666-12-3456'') = 9" by (simp add: d)
  have h2: "\<not> allIdentical (stripNonDigits ''666-12-3456'')" by (simp add: d allIdentical_def)
  show ?thesis
    using ssn_area_group_serial[OF h1 h2] h1 h2
    by (simp add: d Let_def)
qed


lemma nif_sums:
  assumes "length d = 9"
  shows "fold (\<lambda>i sum. sum + parseInt (d ! i) * ([9, 8, 7, 6, 5, 4, 3, 2] ! i)) [0..<8] 0
       = sum_list (map2 (\<lambda>w c. parseInt c * w) [9, 8, 7, 6, 5, 4, 3, 2] (take 8 d))"
    and "slice d 3 6 = [d!3, d!4, d!5]" and "slice d 6 9 = [d!6, d!7, d!8]"
    and "charAt d 0 = [d ! 0]"
proof -
  obtain a0 a1 a2 a3 a4 a5 a6 a7 a8 where d: "d = [a0,a1,a2,a3,a4,a5,a6,a7,a8]"
    using length_9_elems[OF assms] by blast
  show "fold (\<lambda>i sum. sum + parseInt (d ! i) * ([9, 8, 7, 6, 5, 4, 3, 2] ! i)) [0..<8] 0
       = sum_list (map2 (\<lambda>w c. parseInt c * w) [9, 8, 7, 6, 5, 4, 3, 2] (take 8 d))"
    by (simp add: d upt_8)
  show "slice d 3 6 = [d!3, d!4, d!5]" by (simp add: d slice_def)
  show "slice d 6 9 = [d!6, d!7, d!8]" by (simp add: d slice_def)
  show "charAt d 0 = [d ! 0]" by (simp add: d charAt_def)
qed

lemma getEntityType_category: "getEntityType [c] = JStr (nif_category_spec c)"
  by (simp add: getEntityType_def nif_category_spec_def objectPrototypeMembers_def)

lemma getEntityType_first_digit:
  "length d = 9 \<Longrightarrow> getEntityType (charAt d 0) = JStr (nif_category_spec (d ! 0))"
  by (simp add: charAt_def getEntityType_category)

lemma getEntityType_keys:
  "getEntityType k =
     (if k \<in> {''1'', ''2'', ''3''} then JStr ''personal''
      else if k = ''5'' then JStr ''public_entity''
      else if k = ''6'' then JStr ''non_profit''
      else if k \<in> {''7'', ''8'', ''9''} then JStr ''other_entity''
      else if k \<in> set objectPrototypeMembers then JInherited k
      else JStr ''unknown'')"
  by (simp add: getEntityType_def objectPrototypeMembers_def)

text \<open>
  \<open>nif\<close> of version 1.0.1 called on its rule object, as \<open>PortugalRules.nif(x)\<close>. Let \<open>d\<close>
  be the digits of the input, 9 of them and not all identical. The call rejects \<open>d\<close>
  unless its first digit is one of 1, 2, 3, 5, 6, 7, 8, 9; otherwise it compares the check
  digit of \<open>d[0..7]\<close> under the weights 9 down to 2 with \<open>d[8]\<close>, and when they are equal
  the result is valid with the category of the first digit.
\<close>

lemma nif_on_rule_object:
  assumes "length (stripNonDigits s) = 9" and "\<not> allIdentical (stripNonDigits s)"
  shows "nif This_PortugalRules s =
     (let d = stripNonDigits s;
          (sum, remainder, checkDigit) = check_digit_spec [9, 8, 7, 6, 5, 4, 3, 2] (take 8 d)
      in if d ! 0 \<notin> set ''12356789'' then
           Inr \<lparr>isValid = False, error = Some ''NIF must start with 1, 2, 3, 5, 6, 7, 8 or 9'',
                details = Some [(''firstDigit'', JStr [d ! 0]),
                                (''validFirstDigits'',
                                 JArr [JStr ''1'', JStr ''2'', JStr ''3'', JStr ''5'', JStr ''6'',
                                       JStr ''7'', JStr ''8'', JStr ''9''])]\<rparr>
         else if checkDigit \<noteq> parseInt (d ! 8) then
           Inr \<lparr>isValid = False, error = Some ''Invalid check digit'',
                details = Some [(''calculated'', JNum checkDigit),
                                (''provided'', JNum (parseInt (d ! 8)))]\<rparr>
         else
           Inr \<lparr>isValid = True, error = None,
                details = Some [(''formatted'', JStr [d!0, d!1, d!2, CHR '' '', d!3, d!4, d!5,
                                                     CHR '' '', d!6, d!7, d!8]),
                                (''type'', JStr (nif_category_spec (d ! 0))),
                                (''country'', JStr ''PT'')]\<rparr>)"
proof -
  have rep: "\<not> repeatedDigits 8 (stripNonDigits s)"
    using assms repeatedDigits_stripped[of s 8] by simp
  show ?thesis
    unfolding nif_def check_digit_spec_def Let_def
    using rep assms(1)
    by (simp add: nif_sums[OF assms(1)] digits_9_slices(1)[OF assms(1)] getEntityType_category)
qed

text \<open>
  The example of the specification; the call without a receiver, as the dispatcher makes
  it, which throws where version 1.0.1 reads \<open>this\<close>; and version 1.0.0, which rejects the
  first digits 5 to 9 that version 1.0.1 accepts.
\<close>

lemma nif_example_personal:
  "nif This_PortugalRules ''123456789'' = Inr \<lparr>isValid = True, error = None,
        details = Some [(''formatted'', JStr ''123 456 789''), (''type'', JStr ''personal''),
                        (''country'', JStr ''PT'')]\<rparr>"
  by (simp add: nif_def stripNonDigits_def isDigit_def repeatedDigits_def Let_def slice_def
        replicate_numeral charAt_def upt_8 parseInt_def getEntityType_def)

lemma nif_example_entity:
  "nif This_PortugalRules ''501964843'' = Inr \<lparr>isValid = True, error = None,
        details = Some [(''formatted'', JStr ''501 964 843''), (''type'', JStr ''public_entity''),
                        (''country'', JStr ''PT'')]\<rparr>"
  by (simp add: nif_def stripNonDigits_def isDigit_def repeatedDigits_def Let_def slice_def
        replicate_numeral charAt_def upt_8 parseInt_def getEntityType_def)

lemma nif_without_receiver_throws:
  "nif This_undefined ''501964843'' =
     Inl (TypeError (''Cannot read properties of undefined (reading '' @ [CHR 0x27]
                     @ ''getEntityType'' @ [CHR 0x27] @ '')''))"
  by (simp add: nif_def stripNonDigits_def isDigit_def repeatedDigits_def Let_def slice_def
        replicate_numeral charAt_def upt_8 parseInt_def getEntityType_def)

lemma nif_v100_rejects_entities:
  "nif_v100 ''501964843'' = \<lparr>isValid = False, error = Some ''Personal NIF must start with 1, 2 or 3'',
      details = Some [(''firstDigit'', JStr ''5''),
                      (''validFirstDigits'', JArr [JStr ''1'', JStr ''2'', JStr ''3''])]\<rparr>"
  by (simp add: nif_v100_def stripNonDigits_def isDigit_def repeatedDigits_def Let_def slice_def
        replicate_numeral charAt_def)

section \<open>applyMask\<close>

lemma applyMask_loop_spec:
  "i \<le> length m \<Longrightarrow> vi \<le> length v \<Longrightarrow>
   applyMask_loop v m i vi acc = acc @ applyMask_spec (drop vi v) (drop i m)"
proof (induction v m i vi acc rule: applyMask_loop.induct)
  case (1 v m i vi acc)
  show ?case
  proof (cases "i < length m \<and> vi < length v")
    case True
    then have dm: "drop i m = m ! i # drop (Suc i) m" and dv: "drop vi v = v ! vi # drop (Suc vi) v"
      by (simp_all add: Cons_nth_drop_Suc)
    show ?thesis
    proof (cases "m ! i = CHR ''X''")
      case X: True
      have "applyMask_loop v m i vi acc = applyMask_loop v m (i + 1) (vi + 1) (acc @ [v ! vi])"
        using True X by (subst applyMask_loop.simps) simp
      also have "\<dots> = (acc @ [v ! vi]) @ applyMask_spec (drop (vi + 1) v) (drop (i + 1) m)"
        using "1.IH"(1)[OF True X] True by simp
      finally show ?thesis using dm dv X by simp
    next
      case nX: False
      have "applyMask_loop v m i vi acc = applyMask_loop v m (i + 1) vi (acc @ [m ! i])"
        using True nX by (subst applyMask_loop.simps) simp
      also have "\<dots> = (acc @ [m ! i]) @ applyMask_spec (drop vi v) (drop (i + 1) m)"
        using "1.IH"(2)[OF True nX] True "1.prems" by simp
      finally show ?thesis using dm dv nX by simp
    qed
  next
    case False
    then have "applyMask_loop v m i vi acc = acc"
      by (subst applyMask_loop.simps) auto
    moreover have "applyMask_spec (drop vi v) (drop i m) = []"
    proof (cases "vi < length v")
      case True
      with False "1.prems" have "drop i m = []" by simp
      then show ?thesis by (cases "drop vi v") simp_all
    next
      case False
      with "1.prems" have "drop vi v = []" by simp
      then show ?thesis by simp
    qed
    ultimately show ?thesis by simp
  qed
qed

lemma applyMask_is_spec: "applyMask v m = applyMask_spec v m"
  by (simp add: applyMask_def applyMask_loop_spec)

lemma applyMask_spec_ends_on_last_digit:
  "v \<noteq> [] \<Longrightarrow> length v \<le> placeholders m \<Longrightarrow>
   \<exists>n < length m. m ! n = CHR ''X'' \<and> length (applyMask_spec v m) = Suc n
      \<and> applyMask_spec v m ! n = last v \<and> placeholders (take (Suc n) m) = length v"
proof (induction v m rule: applyMask_spec.induct)
  case (1 m)
  then show ?case by simp
next
  case (2 d ds)
  then show ?case by (simp add: placeholders_def)
next
  case (3 d ds c m)
  show ?case
  proof (cases "c = CHR ''X''")
    case X: True
    show ?thesis
    proof (cases ds)
      case Nil
      then show ?thesis using X by (intro exI[of _ 0]) (simp add: placeholders_def)
    next
      case (Cons e es)
      then have "ds \<noteq> []" "length ds \<le> placeholders m"
        using "3.prems" X by (simp_all add: placeholders_def)
      from "3.IH"(1)[OF X this] obtain n where n: "n < length m" "m ! n = CHR ''X''"
        "length (applyMask_spec ds m) = Suc n" "applyMask_spec ds m ! n = last ds"
        "placeholders (take (Suc n) m) = length ds" by blast
      show ?thesis
        using n X Cons by (intro exI[of _ "Suc n"]) (simp add: placeholders_def)
    qed
  next
    case nX: False
    then have "length (d # ds) \<le> placeholders m"
      using "3.prems" by (simp add: placeholders_def)
    from "3.IH"(2)[OF nX _ this] obtain n where n: "n < length m" "m ! n = CHR ''X''"
        "length (applyMask_spec (d # ds) m) = Suc n" "applyMask_spec (d # ds) m ! n = last (d # ds)"
        "placeholders (take (Suc n) m) = length (d # ds)" by blast
    show ?thesis
      using n nX by (intro exI[of _ "Suc n"]) (simp add: placeholders_def)
  qed
qed

text \<open>
  The two examples of the specification, and a mask that ends before the digits do: its
  last literal is copied, since the loop also runs while digits remain.
\<close>

lemma applyMask_examples:
  "applyMask ''12345'' ''XXX-XX'' = ''123-45''" "applyMask ''123'' ''XXX-XX'' = ''123''"
  "applyMask ''123'' ''X-'' = ''1-''"
  by (simp_all add: applyMask_is_spec)

text \<open>
  C4. \<open>applyMask\<close> walks the mask from the left: a placeholder \<open>X\<close> takes the next unused
  digit, any other character is copied, and the walk stops as soon as the digits are
  exhausted. So, when the mask has a placeholder for every digit, the output ends on the
  placeholder that took the last digit and no later literal is appended.
  \<open>applyMask("12345", "XXX-XX")\<close> is \<open>123-45\<close> and \<open>applyMask("123", "XXX-XX")\<close> is \<open>123\<close>.
\<close>

theorem applyMask_walk:
  "applyMask v m = applyMask_spec v m
   \<and> applyMask [] m = []
   \<and> (v \<noteq> [] \<and> length v \<le> placeholders m \<longrightarrow>
        (\<exists>n < length m. m ! n = CHR ''X'' \<and> length (applyMask v m) = Suc n
            \<and> applyMask v m ! n = last v \<and> placeholders (take (Suc n) m) = length v))
   \<and> applyMask ''12345'' ''XXX-XX'' = ''123-45''
   \<and> applyMask ''123'' ''XXX-XX'' = ''123''"
  using applyMask_spec_ends_on_last_digit[of v m] applyMask_examples(1,2)
  by (simp add: applyMask_is_spec)

theorem applyMask_walk_witness:
  "applyMask ''12'' ''(XX) X'' = ''(12''
   \<and> ''12'' \<noteq> [] \<and> length ''12'' \<le> placeholders ''(XX) X''
   \<and> (\<exists>n < length ''(XX) X''. ''(XX) X'' ! n = CHR ''X'' \<and> length (applyMask ''12'' ''(XX) X'') = Suc n
            \<and> applyMask ''12'' ''(XX) X'' ! n = last ''12''
            \<and> placeholders (take (Suc n) ''(XX) X'') = length ''12'')"
proof -
  have h: "''12'' \<noteq> [] \<and> length ''12'' \<le> placeholders ''(XX) X''"
    by (simp add: placeholders_def)
  have e: "applyMask ''12'' ''(XX) X'' = ''(12''"
    using applyMask_walk[of "''12''" "''(XX) X''"] by simp
  show ?thesis
    using applyMask_walk[of "''12''" "''(XX) X''"] h e by blast
qed

section \<open>calculateCursorPosition\<close>

lemma countNumbers_loop_count:
  "countNumbers_loop old c i n = n + countDigits (drop i (take (nat c) old))"
proof (induction old c i n rule: countNumbers_loop.induct)
  case (1 old c i n)
  let ?t = "take (nat c) old"
  show ?case
  proof (cases "int i < c \<and> i < length old")
    case True
    then have len: "i < length ?t" by (simp add: zless_nat_eq_int_zless)
    then have dt: "drop i ?t = old ! i # drop (Suc i) ?t"
      using Cons_nth_drop_Suc[OF len] by simp
    have "countNumbers_loop old c i n
        = countNumbers_loop old c (i + 1) (if isDigit (old ! i) then n + 1 else n)"
      using True by (subst countNumbers_loop.simps) simp
    also have "\<dots> = (if isDigit (old ! i) then n + 1 else n) + countDigits (drop (i + 1) ?t)"
      using "1.IH"[OF True] by simp
    finally show ?thesis by (simp add: dt countDigits_def)
  next
    case False
    then have "drop i ?t = []" by (auto simp: zless_nat_eq_int_zless)
    moreover have "countNumbers_loop old c i n = n"
      using False by (subst countNumbers_loop.simps) auto
    ultimately show ?thesis by (simp add: countDigits_def)
  qed
qed

lemma newCursor_loop_digitIndex:
  "i \<le> length new \<Longrightarrow> found \<le> n \<Longrightarrow> cur = i \<Longrightarrow>
   newCursor_loop new n i found cur = i + digitIndex (drop i new) (n - found)"
proof (induction new n i found cur rule: newCursor_loop.induct)
  case (1 new n i found cur)
  note cur = \<open>cur = i\<close>
  show ?case
  proof (cases "i < length new")
    case True
    then have dn: "drop i new = new ! i # drop (Suc i) new"
      by (simp add: Cons_nth_drop_Suc)
    show ?thesis
    proof (cases "isDigit (new ! i)")
      case dig: True
      show ?thesis
      proof (cases "found + 1 > n")
        case brk: True
        then have "n - found = 0" by simp
        moreover have "newCursor_loop new n i found cur = i"
          using True dig brk cur by (subst newCursor_loop.simps) simp
        ultimately show ?thesis using dn dig by simp
      next
        case go: False
        then obtain k where k: "n - found = Suc k" "n - (found + 1) = k"
          by (metis Suc_diff_Suc Suc_eq_plus1 not_less diff_diff_left less_eq_Suc_le not_less_eq_eq)
        have "newCursor_loop new n i found cur = newCursor_loop new n (i + 1) (found + 1) (i + 1)"
          using True dig go by (subst newCursor_loop.simps) simp
        also have "\<dots> = (i + 1) + digitIndex (drop (i + 1) new) (n - (found + 1))"
          using "1.IH"(1)[OF True dig go] True go by simp
        finally show ?thesis using dn dig k by simp
      qed
    next
      case nd: False
      have "newCursor_loop new n i found cur = newCursor_loop new n (i + 1) found (i + 1)"
        using True nd by (subst newCursor_loop.simps) simp
      also have "\<dots> = (i + 1) + digitIndex (drop (i + 1) new) (n - found)"
        using "1.IH"(2)[OF True nd] True "1.prems" by simp
      finally show ?thesis using dn nd by simp
    qed
  next
    case False
    then have "drop i new = []" by simp
    moreover have "newCursor_loop new n i found cur = i"
      using False cur by (subst newCursor_loop.simps) simp
    ultimately show ?thesis by simp
  qed
qed

lemma calculateCursorPosition_digitIndex:
  "calculateCursorPosition old new c = digitIndex new (countDigits (take (nat c) old))"
  using newCursor_loop_digitIndex[of 0 new 0 _ 0]
  by (simp add: calculateCursorPosition_def countNumbers_loop_count)

lemma digitIndex_le: "digitIndex s n \<le> length s"
  by (induction s n rule: digitIndex.induct) (auto split: nat.splits)

lemma digitIndex_on_digit: "digitIndex s n < length s \<Longrightarrow> isDigit (s ! digitIndex s n)"
  by (induction s n rule: digitIndex.induct) (auto split: nat.splits if_splits)

lemma digitIndex_count:
  "countDigits (take (digitIndex s n) s) = min n (countDigits s)"
  by (induction s n rule: digitIndex.induct) (auto simp: countDigits_def split: nat.splits)


text \<open>
  C5, as stated, fails on its own instance: with old string \<open>123.456\<close>, new string
  \<open>123.456.7\<close> and old cursor 7, six digits precede the cursor, the walk passes the six
  digits and the separator behind them and stops in front of the seventh digit, at index
  8; the index immediately after the sixth digit is 7, and the claim says 9.
\<close>

theorem calculateCursorPosition_instance_counterexample:
  "calculateCursorPosition ''123.456'' ''123.456.7'' 7 = 8
   \<and> calculateCursorPosition ''123.456'' ''123.456.7'' 7 \<noteq> 9
   \<and> countDigits (take 7 ''123.456'') = 6
   \<and> afterNthDigit ''123.456.7'' 6 = 7
   \<and> calculateCursorPosition ''123.456'' ''123.456.7'' 7
       \<noteq> afterNthDigit ''123.456.7'' (countDigits (take 7 ''123.456''))"
proof -
  have n: "countDigits (take 7 ''123.456'') = 6"
    by (simp add: countDigits_def isDigit_def)
  have a: "afterNthDigit ''123.456.7'' 6 = 7"
    by (simp add: eval_nat_numeral isDigit_def)
  have r: "calculateCursorPosition ''123.456'' ''123.456.7'' 7 = 8"
    by (simp add: calculateCursorPosition_digitIndex countDigits_def isDigit_def)
  show ?thesis unfolding n a r by simp
qed

text \<open>
  C5, amended. \<open>calculateCursorPosition\<close> counts the digits of the old string strictly
  before the old cursor, \<open>n\<close> of them, and returns the index of the digit of the new
  string that \<open>n\<close> digits precede, behind any separator that follows the \<open>n\<close>-th digit, or
  the length of the new string when it has at most \<open>n\<close> digits: the result is within the
  new string, \<open>min n (countDigits new)\<close> digits precede it, and it is the end of the new
  string or the index of a digit. On the instance above it returns 8.
\<close>

theorem calculateCursorPosition_next_digit:
  "calculateCursorPosition old new c = digitIndex new (countDigits (take (nat c) old))
   \<and> (let n = countDigits (take (nat c) old); r = calculateCursorPosition old new c
      in r \<le> length new \<and> countDigits (take r new) = min n (countDigits new)
         \<and> (r < length new \<longrightarrow> isDigit (new ! r)))
   \<and> calculateCursorPosition ''123.456'' ''123.456.7'' 7 = 8"
proof -
  have "calculateCursorPosition ''123.456'' ''123.456.7'' 7 = 8"
    by (simp add: calculateCursorPosition_digitIndex countDigits_def isDigit_def)
  then show ?thesis
    using digitIndex_le[of new] digitIndex_on_digit[of new] digitIndex_count[of new]
    by (simp add: calculateCursorPosition_digitIndex Let_def)
qed

theorem calculateCursorPosition_next_digit_witness:
  "calculateCursorPosition ''12-3'' ''1.2.3'' 2 = 4
   \<and> (4::nat) < length ''1.2.3'' \<and> isDigit (''1.2.3'' ! 4)"
proof -
  have r: "calculateCursorPosition ''12-3'' ''1.2.3'' 2 = 4"
    using calculateCursorPosition_next_digit[of "''12-3''" "''1.2.3''" 2]
    by (simp add: countDigits_def isDigit_def)
  have h: "calculateCursorPosition ''12-3'' ''1.2.3'' 2 < length ''1.2.3''"
    by (simp add: r)
  show ?thesis
    using calculateCursorPosition_next_digit[of "''12-3''" "''1.2.3''" 2] h r
    by (simp add: Let_def)
qed

section \<open>detectDocumentType\<close>

lemma find_first:
  "find P xs = Some x \<Longrightarrow> \<exists>pre post. xs = pre @ x # post \<and> P x \<and> (\<forall>e \<in> set pre. \<not> P e)"
proof (induction xs)
  case Nil
  then show ?case by simp
next
  case (Cons a xs)
  show ?case
  proof (cases "P a")
    case True
    with Cons.prems have "x = a" by simp
    with True show ?thesis by (intro exI[of _ "[]"] exI[of _ xs]) simp
  next
    case False
    with Cons.prems have "find P xs = Some x" by simp
    from Cons.IH[OF this] obtain pre post
      where "xs = pre @ x # post" "P x" "\<forall>e \<in> set pre. \<not> P e" by blast
    with False show ?thesis by (intro exI[of _ "a # pre"] exI[of _ post]) simp
  qed
qed

lemma find_none: "find P xs = None \<Longrightarrow> \<forall>e \<in> set xs. \<not> P e"
  by (simp add: find_None_iff)

lemma detectDocumentType_general:
  assumes c: "countries this (selectedCountry this) = Some country"
    and ne: "documents country \<noteq> []"
  shows "\<exists>t. detectDocumentType this = Inr (this\<lparr>currentDocument := Some t\<rparr>)
      \<and> (let n = length (stripNonDigits (input_value this));
              types = sort_key (\<lambda>e. priority (snd e)) (documents country)
          in (n = 0 \<longrightarrow> t = fst (hd types))
           \<and> (0 < n \<longrightarrow>
                (\<exists>pre cfg post. types = pre @ (t, cfg) # post \<and> n \<le> doc_length cfg
                     \<and> (\<forall>e \<in> set pre. doc_length (snd e) < n))
              \<or> ((\<forall>e \<in> set types. doc_length (snd e) < n) \<and> t = fst (last types))))"
proof -
  let ?n = "length (stripNonDigits (input_value this))"
  let ?types = "sort_key (\<lambda>e. priority (snd e)) (documents country)"
  let ?P = "\<lambda>(docType, docConfig). ?n \<le> doc_length docConfig"
  have "length ?types = length (documents country)" by simp
  with ne have tne: "?types \<noteq> []" by (metis length_0_conv)
  then obtain first rest where types: "?types = first # rest" by (cases ?types) auto
  show ?thesis
  proof (cases "?n = 0")
    case True
    then show ?thesis
      using c types by (simp add: detectDocumentType_def Let_def)
  next
    case False
    show ?thesis
    proof (cases "find ?P ?types")
      case None
      from find_none[OF this] have all: "\<forall>e \<in> set ?types. doc_length (snd e) < ?n"
        by (auto simp: not_le)
      have "detectDocumentType this = Inr (this\<lparr>currentDocument := Some (fst (last ?types))\<rparr>)"
        using c False None types by (simp add: detectDocumentType_def Let_def)
      with all False show ?thesis
        by (intro exI[of _ "fst (last ?types)"]) (simp add: Let_def)
    next
      case (Some x)
      obtain t cfg where x: "x = (t, cfg)" by (cases x)
      from find_first[OF Some] obtain pre post
        where split: "?types = pre @ x # post" "?P x" "\<forall>e \<in> set pre. \<not> ?P e" by blast
      have "detectDocumentType this = Inr (this\<lparr>currentDocument := Some t\<rparr>)"
        using c False Some x by (simp add: detectDocumentType_def Let_def)
      moreover have "\<forall>e \<in> set pre. doc_length (snd e) < ?n"
        using split(3) by (auto simp: not_le split: prod.splits)
      ultimately show ?thesis
        using False split(1,2) x by (intro exI[of _ t]) (auto simp: Let_def)
    qed
  qed
qed

lemma detectDocumentType_no_country:
  assumes "countries this (selectedCountry this) = None"
  shows "detectDocumentType this =
     (if selectedCountry this \<in> set objectPrototypeMembers
      then Inl (TypeError ''Cannot convert undefined or null to object'') else Inr this)"
  using assms by (simp add: detectDocumentType_def Let_def)

lemma detectDocumentType_br:
  assumes "countries this = CountriesData" and "selectedCountry this = ''br''"
  shows "detectDocumentType this =
     Inr (this\<lparr>currentDocument :=
            Some (if length (stripNonDigits (input_value this)) \<le> 11 then ''cpf'' else ''cnpj'')\<rparr>)"
  using assms by (simp add: detectDocumentType_def CountriesData_def Let_def)


text \<open>
  C3. For a selected country with at least one document type, \<open>detectDocumentType\<close>
  strips the non-digits of the input, orders the types by ascending priority (a stable
  sort), and sets the current document to the first type of that order when there is no
  digit, otherwise to the first type of that order whose length is at least the number
  of digits, and to the last type when the number of digits exceeds every length. For
  Brazil, 0 digits give cpf, 12 digits cnpj and 20 digits cnpj.
\<close>

theorem detectDocumentType_by_length:
  assumes "countries this (selectedCountry this) = Some country"
    and "documents country \<noteq> []"
  shows "(\<exists>t. detectDocumentType this = Inr (this\<lparr>currentDocument := Some t\<rparr>)
      \<and> (let n = length (stripNonDigits (input_value this));
              types = sort_key (\<lambda>e. priority (snd e)) (documents country)
          in sorted (map (\<lambda>e. priority (snd e)) types)
           \<and> (\<forall>k. filter (\<lambda>e. priority (snd e) = k) types
                   = filter (\<lambda>e. priority (snd e) = k) (documents country))
           \<and> (n = 0 \<longrightarrow> t = fst (hd types))
           \<and> (0 < n \<longrightarrow>
                (\<exists>pre cfg post. types = pre @ (t, cfg) # post \<and> n \<le> doc_length cfg
                     \<and> (\<forall>e \<in> set pre. doc_length (snd e) < n))
              \<or> ((\<forall>e \<in> set types. doc_length (snd e) < n) \<and> t = fst (last types)))))
   \<and> (\<forall>fm. countries fm = CountriesData \<and> selectedCountry fm = ''br'' \<longrightarrow>
          (length (stripNonDigits (input_value fm)) = 0 \<longrightarrow>
             detectDocumentType fm = Inr (fm\<lparr>currentDocument := Some ''cpf''\<rparr>))
        \<and> (length (stripNonDigits (input_value fm)) = 12 \<longrightarrow>
             detectDocumentType fm = Inr (fm\<lparr>currentDocument := Some ''cnpj''\<rparr>))
        \<and> (length (stripNonDigits (input_value fm)) = 20 \<longrightarrow>
             detectDocumentType fm = Inr (fm\<lparr>currentDocument := Some ''cnpj''\<rparr>)))"
proof -
  have order: "sorted (map (\<lambda>e. priority (snd e)) (sort_key (\<lambda>e. priority (snd e)) (documents country)))"
    by (rule sorted_sort_key)
  have stable: "\<forall>k. filter (\<lambda>e. priority (snd e) = k) (sort_key (\<lambda>e. priority (snd e)) (documents country))
                   = filter (\<lambda>e. priority (snd e) = k) (documents country)"
    by (simp add: sort_key_stable)
  from detectDocumentType_general[OF assms] obtain t where
    t: "detectDocumentType this = Inr (this\<lparr>currentDocument := Some t\<rparr>)"
       "let n = length (stripNonDigits (input_value this));
            types = sort_key (\<lambda>e. priority (snd e)) (documents country)
        in (n = 0 \<longrightarrow> t = fst (hd types))
           \<and> (0 < n \<longrightarrow>
                (\<exists>pre cfg post. types = pre @ (t, cfg) # post \<and> n \<le> doc_length cfg
                     \<and> (\<forall>e \<in> set pre. doc_length (snd e) < n))
              \<or> ((\<forall>e \<in> set types. doc_length (snd e) < n) \<and> t = fst (last types)))"
    by blast
  have first: "\<exists>t. detectDocumentType this = Inr (this\<lparr>currentDocument := Some t\<rparr>)
      \<and> (let n = length (stripNonDigits (input_value this));
              types = sort_key (\<lambda>e. priority (snd e)) (documents country)
          in sorted (map (\<lambda>e. priority (snd e)) types)
           \<and> (\<forall>k. filter (\<lambda>e. priority (snd e) = k) types
                   = filter (\<lambda>e. priority (snd e) = k) (documents country))
           \<and> (n = 0 \<longrightarrow> t = fst (hd types))
           \<and> (0 < n \<longrightarrow>
                (\<exists>pre cfg post. types = pre @ (t, cfg) # post \<and> n \<le> doc_length cfg
                     \<and> (\<forall>e \<in> set pre. doc_length (snd e) < n))
              \<or> ((\<forall>e \<in> set types. doc_length (snd e) < n) \<and> t = fst (last types))))"
    using t order stable unfolding Let_def by (intro exI[of _ t]) blast
  have br: "\<forall>fm. countries fm = CountriesData \<and> selectedCountry fm = ''br'' \<longrightarrow>
          (length (stripNonDigits (input_value fm)) = 0 \<longrightarrow>
             detectDocumentType fm = Inr (fm\<lparr>currentDocument := Some ''cpf''\<rparr>))
        \<and> (length (stripNonDigits (input_value fm)) = 12 \<longrightarrow>
             detectDocumentType fm = Inr (fm\<lparr>currentDocument := Some ''cnpj''\<rparr>))
        \<and> (length (stripNonDigits (input_value fm)) = 20 \<longrightarrow>
             detectDocumentType fm = Inr (fm\<lparr>currentDocument := Some ''cnpj''\<rparr>))"
    using detectDocumentType_br by simp
  from first br show ?thesis by (rule conjI)
qed

theorem detectDocumentType_by_length_witness:
  "CountriesData ''br'' =
     Some \<lparr>name = ''Brasil'', iso2 = ''br'', flag = ''https://flagcdn.com/w20/br.png'',
        documents =
          [(''cpf'', \<lparr>doc_length = 11, mask = ''XXX.XXX.XXX-XX'', doc_type = ''personal'',
                      priority = 1\<rparr>),
           (''cnpj'', \<lparr>doc_length = 14, mask = ''XX.XXX.XXX/XXXX-XX'', doc_type = ''company'',
                       priority = 2\<rparr>)]\<rparr>
   \<and> length (stripNonDigits ''12.345.678/9012'') = 12
   \<and> detectDocumentType \<lparr>input_value = ''12.345.678/9012'', countries = CountriesData,
                          selectedCountry = ''br'', currentDocument = None\<rparr>
     = Inr \<lparr>input_value = ''12.345.678/9012'', countries = CountriesData,
            selectedCountry = ''br'', currentDocument = Some ''cnpj''\<rparr>"
proof -
  let ?fm = "\<lparr>input_value = ''12.345.678/9012'', countries = CountriesData,
              selectedCountry = ''br'', currentDocument = None\<rparr>"
  let ?br = "\<lparr>name = ''Brasil'', iso2 = ''br'', flag = ''https://flagcdn.com/w20/br.png'',
        documents =
          [(''cpf'', \<lparr>doc_length = 11, mask = ''XXX.XXX.XXX-XX'', doc_type = ''personal'',
                      priority = 1\<rparr>),
           (''cnpj'', \<lparr>doc_length = 14, mask = ''XX.XXX.XXX/XXXX-XX'', doc_type = ''company'',
                       priority = 2\<rparr>)]\<rparr>"
  have h1: "countries ?fm (selectedCountry ?fm) = Some ?br"
    by (simp add: CountriesData_def)
  have h2: "documents ?br \<noteq> []" by simp
  have n: "length (stripNonDigits (input_value ?fm)) = 12"
    by (simp add: stripNonDigits_def isDigit_def)
  have h3: "countries ?fm = CountriesData \<and> selectedCountry ?fm = ''br''" by simp
  from detectDocumentType_by_length[OF h1 h2] h3 n
  have "detectDocumentType ?fm = Inr (?fm\<lparr>currentDocument := Some ''cnpj''\<rparr>)"
    by blast
  with h1 n show ?thesis by simp
qed

section \<open>Validator.validate\<close>

lemma toLowerCase_examples:
  "toLowerCase ''XX'' = ''xx''" "toLowerCase ''BR'' = ''br''" "toLowerCase ''pt'' = ''pt''"
  "toLowerCase ''us'' = ''us''" "toLowerCase ''US'' = ''us''" "toLowerCase ''br'' = ''br''" "toLowerCase ''xx'' = ''xx''"
  by code_simp+

lemma ValidatorInstance_rules:
  "rules ValidatorInstance ''br'' = Some BrazilRules"
  "rules ValidatorInstance ''pt'' = Some PortugalRules"
  "rules ValidatorInstance ''us'' = Some USARules"
  "rules ValidatorInstance ''xx'' = None"
  by (simp_all add: ValidatorInstance_def registerRules_def toLowerCase_examples)

lemma validate_no_rules:
  "rules this (toLowerCase cc) = None \<Longrightarrow>
   validate this doc cc dt =
     \<lparr>isValid = False,
      error = Some (''Regras de valida'' @ [c_cedilla, a_tilde] @ ''o n'' @ [a_tilde]
                    @ ''o encontradas para o pa'' @ [i_acute] @ ''s: '' @ cc),
      details = None, documentType = None, countryCode = None\<rparr>"
  by (simp add: validate_def)

lemma validate_no_validator:
  "rules this (toLowerCase cc) = Some rs \<Longrightarrow> rs dt = None \<Longrightarrow>
   validate this doc cc dt =
     \<lparr>isValid = False,
      error = Some (''Validador n'' @ [a_tilde] @ ''o encontrado para o tipo: '' @ dt),
      details = None, documentType = None, countryCode = None\<rparr>"
  by (simp add: validate_def)

lemma validate_caught:
  "rules this (toLowerCase cc) = Some rs \<Longrightarrow> rs dt = Some v \<Longrightarrow> v doc = Inl (TypeError message) \<Longrightarrow>
   validate this doc cc dt =
     \<lparr>isValid = False,
      error = Some (''Erro durante valida'' @ [c_cedilla, a_tilde] @ ''o: '' @ message),
      details = None, documentType = None, countryCode = None\<rparr>"
  by (simp add: validate_def)

lemma validate_result:
  "rules this (toLowerCase cc) = Some rs \<Longrightarrow> rs dt = Some v \<Longrightarrow> v doc = Inr result \<Longrightarrow>
   validate this doc cc dt =
     \<lparr>isValid = isValid result,
      error = (if error result = Some [] then None else error result),
      details = details result, documentType = Some dt, countryCode = Some cc\<rparr>"
  by (simp add: validate_def)

lemma validate_error_not_empty: "error (validate this doc cc dt) \<noteq> Some []"
  by (simp add: validate_def split: option.splits sum.splits thrown.splits)

text \<open>
  C6. \<open>validate\<close> returns a failed result, not an exception, in each of its three failure
  cases: when no rule object is registered for the lower-cased country code, with the
  message that the rules of the country were not found; when the rule object of the
  country has no function for the document type, with the message that the validator of
  the type was not found; and when the validator throws, where the \<open>catch\<close> turns the
  exception into a failed result that carries its message. In the remaining case the
  result of the validator is returned. \<open>validate\<close> is a total function into results: no
  branch of it throws.
\<close>

theorem validate_failures_are_results:
  "(rules this (toLowerCase cc) = None \<longrightarrow>
      validate this doc cc dt =
        \<lparr>isValid = False,
         error = Some (''Regras de valida'' @ [c_cedilla, a_tilde] @ ''o n'' @ [a_tilde]
                       @ ''o encontradas para o pa'' @ [i_acute] @ ''s: '' @ cc),
         details = None, documentType = None, countryCode = None\<rparr>)
   \<and> (\<forall>rs. rules this (toLowerCase cc) = Some rs \<and> rs dt = None \<longrightarrow>
      validate this doc cc dt =
        \<lparr>isValid = False,
         error = Some (''Validador n'' @ [a_tilde] @ ''o encontrado para o tipo: '' @ dt),
         details = None, documentType = None, countryCode = None\<rparr>)
   \<and> (\<forall>rs v message. rules this (toLowerCase cc) = Some rs \<and> rs dt = Some v
          \<and> v doc = Inl (TypeError message) \<longrightarrow>
      validate this doc cc dt =
        \<lparr>isValid = False,
         error = Some (''Erro durante valida'' @ [c_cedilla, a_tilde] @ ''o: '' @ message),
         details = None, documentType = None, countryCode = None\<rparr>)
   \<and> (\<forall>rs v result. rules this (toLowerCase cc) = Some rs \<and> rs dt = Some v
          \<and> v doc = Inr result \<longrightarrow>
      validate this doc cc dt =
        \<lparr>isValid = isValid result,
         error = (if error result = Some [] then None else error result),
         details = details result, documentType = Some dt, countryCode = Some cc\<rparr>)"
  using validate_no_rules[of this cc doc dt] validate_no_validator[of this cc _ dt doc]
    validate_caught[of this cc _ dt _ doc] validate_result[of this cc _ dt _ doc]
  by blast

theorem validate_failures_are_results_witness:
  "rules ValidatorInstance (toLowerCase ''XX'') = None
   \<and> validate ValidatorInstance ''12345678909'' ''XX'' ''cpf'' =
        \<lparr>isValid = False,
         error = Some (''Regras de valida'' @ [c_cedilla, a_tilde] @ ''o n'' @ [a_tilde]
                       @ ''o encontradas para o pa'' @ [i_acute] @ ''s: XX''),
         details = None, documentType = None, countryCode = None\<rparr>
   \<and> rules ValidatorInstance (toLowerCase ''BR'') = Some BrazilRules \<and> BrazilRules ''rg'' = None
   \<and> validate ValidatorInstance ''12345678909'' ''BR'' ''rg'' =
        \<lparr>isValid = False,
         error = Some (''Validador n'' @ [a_tilde] @ ''o encontrado para o tipo: rg''),
         details = None, documentType = None, countryCode = None\<rparr>
   \<and> rules ValidatorInstance (toLowerCase ''pt'') = Some PortugalRules
   \<and> PortugalRules ''nif'' = Some (nif This_undefined)
   \<and> validate ValidatorInstance ''501964843'' ''pt'' ''nif'' =
        \<lparr>isValid = False,
         error = Some (''Erro durante valida'' @ [c_cedilla, a_tilde]
                       @ ''o: Cannot read properties of undefined (reading ''
                       @ [CHR 0x27] @ ''getEntityType'' @ [CHR 0x27] @ '')''),
         details = None, documentType = None, countryCode = None\<rparr>
   \<and> rules ValidatorInstance (toLowerCase ''us'') = Some USARules
   \<and> validate ValidatorInstance ''123456789'' ''us'' ''ssn'' =
        \<lparr>isValid = True, error = None,
         details = Some [(''formatted'', JStr ''123-45-6789''), (''type'', JStr ''personal''),
                         (''country'', JStr ''US''),
                         (''parts'', JObj [(''area'', JStr ''123''), (''group'', JStr ''45''),
                                           (''serial'', JStr ''6789'')])],
         documentType = Some ''ssn'', countryCode = Some ''us''\<rparr>"
proof -
  have h1: "rules ValidatorInstance (toLowerCase ''XX'') = None"
    by (simp add: toLowerCase_examples ValidatorInstance_rules)
  have h2: "rules ValidatorInstance (toLowerCase ''BR'') = Some BrazilRules \<and> BrazilRules ''rg'' = None"
    by (simp add: toLowerCase_examples ValidatorInstance_rules BrazilRules_def)
  have h3: "rules ValidatorInstance (toLowerCase ''pt'') = Some PortugalRules
      \<and> PortugalRules ''nif'' = Some (nif This_undefined)
      \<and> nif This_undefined ''501964843'' =
          Inl (TypeError (''Cannot read properties of undefined (reading '' @ [CHR 0x27]
                     @ ''getEntityType'' @ [CHR 0x27] @ '')''))"
    using nif_without_receiver_throws
    by (simp add: toLowerCase_examples ValidatorInstance_rules PortugalRules_def)
  have h4: "rules ValidatorInstance (toLowerCase ''us'') = Some USARules
      \<and> USARules ''ssn'' = Some (\<lambda>d. Inr (ssn d))
      \<and> (\<lambda>d. Inr (ssn d)) ''123456789'' = Inr (ssn ''123456789'')"
    by (simp add: toLowerCase_examples ValidatorInstance_rules USARules_def)
  have r1: "validate ValidatorInstance ''12345678909'' ''XX'' ''cpf'' =
        \<lparr>isValid = False,
         error = Some (''Regras de valida'' @ [c_cedilla, a_tilde] @ ''o n'' @ [a_tilde]
                       @ ''o encontradas para o pa'' @ [i_acute] @ ''s: XX''),
         details = None, documentType = None, countryCode = None\<rparr>"
    using validate_failures_are_results[where this=ValidatorInstance and cc="''XX''"
            and doc="''12345678909''" and dt="''cpf''"] h1
    by simp
  have r2: "validate ValidatorInstance ''12345678909'' ''BR'' ''rg'' =
        \<lparr>isValid = False,
         error = Some (''Validador n'' @ [a_tilde] @ ''o encontrado para o tipo: rg''),
         details = None, documentType = None, countryCode = None\<rparr>"
    using validate_failures_are_results[where this=ValidatorInstance and cc="''BR''"
            and doc="''12345678909''" and dt="''rg''"] h2
    by simp
  have r3: "validate ValidatorInstance ''501964843'' ''pt'' ''nif'' =
        \<lparr>isValid = False,
         error = Some (''Erro durante valida'' @ [c_cedilla, a_tilde]
                       @ ''o: Cannot read properties of undefined (reading ''
                       @ [CHR 0x27] @ ''getEntityType'' @ [CHR 0x27] @ '')''),
         details = None, documentType = None, countryCode = None\<rparr>"
    using validate_failures_are_results[where this=ValidatorInstance and cc="''pt''"
            and doc="''501964843''" and dt="''nif''"] h3
    by simp
  have r4: "validate ValidatorInstance ''123456789'' ''us'' ''ssn'' =
        \<lparr>isValid = isValid (ssn ''123456789''),
         error = (if error (ssn ''123456789'') = Some [] then None else error (ssn ''123456789'')),
         details = details (ssn ''123456789''), documentType = Some ''ssn'', countryCode = Some ''us''\<rparr>"
    using validate_failures_are_results[where this=ValidatorInstance and cc="''us''"
            and doc="''123456789''" and dt="''ssn''", THEN conjunct2, THEN conjunct2,
            THEN conjunct2, rule_format, of USARules "\<lambda>d. Inr (ssn d)" "ssn ''123456789''"] h4
    by simp
  show ?thesis
    using h1 h2 h3 h4 r1 r2 r3 r4 by (simp add: ssn_example_valid)
qed


lemma ssn_example_666:
  "ssn ''666123456'' = \<lparr>isValid = False, error = Some [],
      details = Some [(''area'', JStr ''666''), (''issue'', JStr ''invalid_area_666'')]\<rparr>"
  by (simp add: ssn_def stripNonDigits_def isDigit_def repeatedDigits_def Let_def slice_def
        replicate_numeral)

lemma validate_ssn_666:
  "validate ValidatorInstance ''666123456'' ''us'' ''ssn'' =
     \<lparr>isValid = False, error = None,
      details = Some [(''area'', JStr ''666''), (''issue'', JStr ''invalid_area_666'')],
      documentType = Some ''ssn'', countryCode = Some ''us''\<rparr>"
  by (simp add: validate_def toLowerCase_examples ValidatorInstance_rules USARules_def
        ssn_example_666)

text \<open>
  C10. \<open>validate\<close> passes the error of a validator through \<open>result.error || null\<close>: an empty
  string becomes \<open>null\<close>, so no result of \<open>validate\<close> has the empty string as its error,
  whatever the registered validators return. The SSN validator returns the empty string
  for area 666, and \<open>validate\<close> reports that document with error \<open>null\<close>.
\<close>

theorem validate_error_never_empty:
  "error (validate this doc cc dt) \<noteq> Some []
   \<and> (\<forall>rs v result. rules this (toLowerCase cc) = Some rs \<and> rs dt = Some v
          \<and> v doc = Inr result \<and> (error result = Some [] \<or> error result = None) \<longrightarrow>
        error (validate this doc cc dt) = None)
   \<and> error (ssn ''666123456'') = Some []
   \<and> validate ValidatorInstance ''666123456'' ''us'' ''ssn'' =
        \<lparr>isValid = False, error = None,
         details = Some [(''area'', JStr ''666''), (''issue'', JStr ''invalid_area_666'')],
         documentType = Some ''ssn'', countryCode = Some ''us''\<rparr>"
proof -
  have "\<forall>rs v result. rules this (toLowerCase cc) = Some rs \<and> rs dt = Some v
          \<and> v doc = Inr result \<and> (error result = Some [] \<or> error result = None) \<longrightarrow>
        error (validate this doc cc dt) = None"
    by (auto simp: validate_def)
  then show ?thesis
    using validate_error_not_empty[of this doc cc dt] validate_ssn_666
    by (simp add: ssn_example_666)
qed

theorem validate_error_never_empty_witness:
  "rules ValidatorInstance (toLowerCase ''US'') = Some USARules
   \<and> USARules ''ssn'' = Some (\<lambda>d. Inr (ssn d))
   \<and> error (ssn ''666-12-3456'') = Some []
   \<and> error (validate ValidatorInstance ''666-12-3456'' ''US'' ''ssn'') = None"
proof -
  have h: "rules ValidatorInstance (toLowerCase ''US'') = Some USARules
      \<and> USARules ''ssn'' = Some (\<lambda>d. Inr (ssn d))
      \<and> (\<lambda>d. Inr (ssn d)) ''666-12-3456'' = Inr (ssn ''666-12-3456'')
      \<and> (error (ssn ''666-12-3456'') = Some [] \<or> error (ssn ''666-12-3456'') = None)"
    by (simp add: toLowerCase_examples ValidatorInstance_rules USARules_def ssn_def
          stripNonDigits_def isDigit_def repeatedDigits_def Let_def slice_def replicate_numeral)
  have e: "error (ssn ''666-12-3456'') = Some []"
    by (simp add: ssn_def stripNonDigits_def isDigit_def repeatedDigits_def Let_def slice_def
          replicate_numeral)
  have "error (validate ValidatorInstance ''666-12-3456'' ''US'' ''ssn'') = None"
    using validate_error_never_empty[where this=ValidatorInstance and cc="''US''"
            and doc="''666-12-3456''" and dt="''ssn''", THEN conjunct2, THEN conjunct1,
            rule_format, of USARules "\<lambda>d. Inr (ssn d)" "ssn ''666-12-3456''"] h
    by simp
  with h e show ?thesis by simp
qed

section \<open>The invariant of validation results\<close>

lemma cpf_invariant: "result_invariant (cpf s)"
  by (simp add: cpf_def Let_def result_invariant_def hasString_def detail_def)

lemma cnpj_invariant: "result_invariant (cnpj s)"
  by (simp add: cnpj_def Let_def result_invariant_def hasString_def detail_def)

lemma nipc_invariant: "result_invariant (nipc s)"
  by (simp add: nipc_def Let_def result_invariant_def hasString_def detail_def)

lemma nif_v100_invariant: "result_invariant (nif_v100 s)"
  by (simp add: nif_v100_def Let_def result_invariant_def hasString_def detail_def)

lemma ein_invariant: "result_invariant (ein s)"
  unfolding ein_def Let_def
  by (simp add: result_invariant_def hasString_def detail_def del: list.set set_simps)

lemma nif_invariant_sum:
  "(case nif this s of Inl e \<Rightarrow> True | Inr r \<Rightarrow> result_invariant r)"
  unfolding nif_def Let_def
  by (simp add: result_invariant_def hasString_def detail_def getEntityType_first_digit
        split: receiver.split del: list.set set_simps)

lemma nif_invariant: "nif this s = Inr r \<Longrightarrow> result_invariant r"
  using nif_invariant_sum[of this s] by simp

lemma ssn_invariant:
  "ssn s = r \<Longrightarrow>
   (if length (stripNonDigits s) = 9 \<and> \<not> repeatedDigits 8 (stripNonDigits s)
       \<and> slice (stripNonDigits s) 0 3 = ''666''
    then \<not> isValid r \<and> error r = Some [] else result_invariant r)"
  by (auto simp: ssn_def Let_def result_invariant_def hasString_def detail_def split: if_splits)


text \<open>
  C9. Every result of the validators \<open>cpf\<close>, \<open>cnpj\<close>, \<open>nif\<close> (both versions), \<open>nipc\<close>, \<open>ssn\<close>
  and \<open>ein\<close> satisfies the invariant: a valid result has error \<open>null\<close> and details with
  \<open>formatted\<close>, the category (\<open>type\<close>) and the country code (\<open>country\<close>); a failed result
  has a non-empty error string. The one exception is the area-666 branch of \<open>ssn\<close>, taken
  by the 9-digit, not-all-identical inputs whose first three digits are 666: its result
  is failed with the empty string as error.
\<close>

theorem validators_result_invariant:
  "result_invariant (cpf s) \<and> result_invariant (cnpj s)
   \<and> (\<forall>this r. nif this s = Inr r \<longrightarrow> result_invariant r)
   \<and> result_invariant (nif_v100 s) \<and> result_invariant (nipc s) \<and> result_invariant (ein s)
   \<and> (let d = stripNonDigits s
      in if length d = 9 \<and> \<not> allIdentical d \<and> take 3 d = ''666''
         then \<not> isValid (ssn s) \<and> error (ssn s) = Some []
         else result_invariant (ssn s))"
proof -
  have "length (stripNonDigits s) = 9 \<Longrightarrow>
        repeatedDigits 8 (stripNonDigits s) = allIdentical (stripNonDigits s)"
    using repeatedDigits_stripped[of s 8] by simp
  then have "let d = stripNonDigits s
      in if length d = 9 \<and> \<not> allIdentical d \<and> take 3 d = ''666''
         then \<not> isValid (ssn s) \<and> error (ssn s) = Some []
         else result_invariant (ssn s)"
    using ssn_invariant[of s "ssn s"] by (auto simp: Let_def slice_def split: if_splits)
  then show ?thesis
    using cpf_invariant cnpj_invariant nif_invariant nif_v100_invariant nipc_invariant
      ein_invariant by blast
qed

theorem validators_result_invariant_witness:
  "nif This_PortugalRules ''123456789'' = Inr \<lparr>isValid = True, error = None,
        details = Some [(''formatted'', JStr ''123 456 789''), (''type'', JStr ''personal''),
                        (''country'', JStr ''PT'')]\<rparr>
   \<and> result_invariant \<lparr>isValid = True, error = None,
        details = Some [(''formatted'', JStr ''123 456 789''), (''type'', JStr ''personal''),
                        (''country'', JStr ''PT'')]\<rparr>
   \<and> length (stripNonDigits ''666-12-3456'') = 9 \<and> \<not> allIdentical (stripNonDigits ''666-12-3456'')
   \<and> take 3 (stripNonDigits ''666-12-3456'') = ''666''
   \<and> \<not> isValid (ssn ''666-12-3456'') \<and> error (ssn ''666-12-3456'') = Some []"
proof -
  have d: "stripNonDigits ''666-12-3456'' = ''666123456''"
    by (simp add: stripNonDigits_def isDigit_def)
  have h: "length (stripNonDigits ''666-12-3456'') = 9 \<and> \<not> allIdentical (stripNonDigits ''666-12-3456'')
      \<and> take 3 (stripNonDigits ''666-12-3456'') = ''666''"
    by (simp add: d allIdentical_def)
  have a: "result_invariant \<lparr>isValid = True, error = None,
        details = Some [(''formatted'', JStr ''123 456 789''), (''type'', JStr ''personal''),
                        (''country'', JStr ''PT'')]\<rparr>"
    using validators_result_invariant[of "''123456789''", THEN conjunct2, THEN conjunct2,
            THEN conjunct1, rule_format, OF nif_example_personal] .
  have b: "\<not> isValid (ssn ''666-12-3456'') \<and> error (ssn ''666-12-3456'') = Some []"
    using validators_result_invariant[of "''666-12-3456''"] h by (simp add: Let_def)
  show ?thesis using nif_example_personal a b h by simp
qed

section \<open>Validating the formatted string again\<close>

lemma stripNonDigits_append: "stripNonDigits (a @ b) = stripNonDigits a @ stripNonDigits b"
  by (simp add: stripNonDigits_def)

lemma stripNonDigits_slice: "stripNonDigits (slice (stripNonDigits s) a b) = slice (stripNonDigits s) a b"
proof -
  have "\<forall>c \<in> set (slice (stripNonDigits s) a b). isDigit c"
    unfolding slice_def by (meson in_set_takeD in_set_dropD stripNonDigits_isDigit)
  then show ?thesis by (simp add: stripNonDigits_def)
qed

lemma stripNonDigits_separators:
  "stripNonDigits ''.'' = []" "stripNonDigits ''-'' = []" "stripNonDigits ''/'' = []"
  "stripNonDigits '' '' = []"
  by (simp_all add: stripNonDigits_def isDigit_def)

lemma slice_join: "a \<le> b \<Longrightarrow> b \<le> c \<Longrightarrow> slice d a b @ slice d b c = slice d a c"
proof -
  assume ab: "a \<le> b" and bc: "b \<le> c"
  have "take (c - a) (drop a d) = take (b - a) (drop a d) @ take (c - b) (drop (b - a) (drop a d))"
    using ab bc take_add[of "b - a" "c - b" "drop a d"] by simp
  then show ?thesis using ab by (simp add: slice_def)
qed

lemma slice_all: "length d = n \<Longrightarrow> slice d 0 n = d"
  by (simp add: slice_def)

lemma cpf_digits_only: "cpf (stripNonDigits s) = cpf s"
  by (simp add: cpf_def stripNonDigits_idem)

lemma cpf_valid_formatted:
  "isValid (cpf s) \<Longrightarrow> length (stripNonDigits s) = 11 \<and>
     formatted_of (cpf s) = Some (slice (stripNonDigits s) 0 3 @ ''.'' @ slice (stripNonDigits s) 3 6
        @ ''.'' @ slice (stripNonDigits s) 6 9 @ ''-'' @ slice (stripNonDigits s) 9 11)"
  by (simp add: cpf_def Let_def formatted_of_def detail_def split: if_splits)

lemma cpf_roundtrip:
  assumes "isValid (cpf s)"
  shows "\<exists>f. formatted_of (cpf s) = Some f \<and> stripNonDigits f = stripNonDigits s \<and> cpf f = cpf s"
proof -
  let ?d = "stripNonDigits s"
  let ?f = "slice ?d 0 3 @ ''.'' @ slice ?d 3 6 @ ''.'' @ slice ?d 6 9 @ ''-'' @ slice ?d 9 11"
  from cpf_valid_formatted[OF assms] have len: "length ?d = 11" and f: "formatted_of (cpf s) = Some ?f"
    by simp_all
  have "stripNonDigits ?f = slice ?d 0 3 @ slice ?d 3 6 @ slice ?d 6 9 @ slice ?d 9 11"
    by (simp only: stripNonDigits_append stripNonDigits_slice stripNonDigits_separators
          append_Nil append_Nil2)
  also have "\<dots> = ?d" using len by (simp add: slice_join slice_all)
  finally have strip: "stripNonDigits ?f = ?d" .
  then have "cpf ?f = cpf s"
    using cpf_digits_only[of ?f] cpf_digits_only[of s] by simp
  with f strip show ?thesis by blast
qed


lemma cnpj_digits_only: "cnpj (stripNonDigits s) = cnpj s"
  by (simp add: cnpj_def stripNonDigits_idem)

lemma cnpj_valid_formatted:
  "isValid (cnpj s) \<Longrightarrow> length (stripNonDigits s) = 14 \<and>
     formatted_of (cnpj s) = Some (slice (stripNonDigits s) 0 2 @ ''.'' @ slice (stripNonDigits s) 2 5 @ ''.'' @ slice (stripNonDigits s) 5 8 @ ''/'' @ slice (stripNonDigits s) 8 12 @ ''-'' @ slice (stripNonDigits s) 12 14)"
  by (simp add: cnpj_def Let_def formatted_of_def detail_def split: if_splits)

lemma cnpj_roundtrip:
  assumes "isValid (cnpj s)"
  shows "\<exists>f. formatted_of (cnpj s) = Some f \<and> stripNonDigits f = stripNonDigits s \<and> cnpj f = cnpj s"
proof -
  let ?d = "stripNonDigits s"
  let ?f = "slice ?d 0 2 @ ''.'' @ slice ?d 2 5 @ ''.'' @ slice ?d 5 8 @ ''/'' @ slice ?d 8 12 @ ''-'' @ slice ?d 12 14"
  from cnpj_valid_formatted[OF assms] have len: "length ?d = 14" and f: "formatted_of (cnpj s) = Some ?f"
    by simp_all
  have "stripNonDigits ?f = slice ?d 0 2 @ slice ?d 2 5 @ slice ?d 5 8 @ slice ?d 8 12 @ slice ?d 12 14"
    by (simp only: stripNonDigits_append stripNonDigits_slice stripNonDigits_separators
          append_Nil append_Nil2)
  also have "\<dots> = ?d" using len by (simp add: slice_join slice_all)
  finally have strip: "stripNonDigits ?f = ?d" .
  then have "cnpj ?f = cnpj s"
    using cnpj_digits_only[of ?f] cnpj_digits_only[of s] by simp
  with f strip show ?thesis by blast
qed

lemma nipc_digits_only: "nipc (stripNonDigits s) = nipc s"
  by (simp add: nipc_def stripNonDigits_idem)

lemma nipc_valid_formatted:
  "isValid (nipc s) \<Longrightarrow> length (stripNonDigits s) = 9 \<and>
     formatted_of (nipc s) = Some (slice (stripNonDigits s) 0 3 @ '' '' @ slice (stripNonDigits s) 3 6 @ '' '' @ slice (stripNonDigits s) 6 9)"
  by (simp add: nipc_def Let_def formatted_of_def detail_def split: if_splits)

lemma nipc_roundtrip:
  assumes "isValid (nipc s)"
  shows "\<exists>f. formatted_of (nipc s) = Some f \<and> stripNonDigits f = stripNonDigits s \<and> nipc f = nipc s"
proof -
  let ?d = "stripNonDigits s"
  let ?f = "slice ?d 0 3 @ '' '' @ slice ?d 3 6 @ '' '' @ slice ?d 6 9"
  from nipc_valid_formatted[OF assms] have len: "length ?d = 9" and f: "formatted_of (nipc s) = Some ?f"
    by simp_all
  have "stripNonDigits ?f = slice ?d 0 3 @ slice ?d 3 6 @ slice ?d 6 9"
    by (simp only: stripNonDigits_append stripNonDigits_slice stripNonDigits_separators
          append_Nil append_Nil2)
  also have "\<dots> = ?d" using len by (simp add: slice_join slice_all)
  finally have strip: "stripNonDigits ?f = ?d" .
  then have "nipc ?f = nipc s"
    using nipc_digits_only[of ?f] nipc_digits_only[of s] by simp
  with f strip show ?thesis by blast
qed

lemma nif_v100_digits_only: "nif_v100 (stripNonDigits s) = nif_v100 s"
  by (simp add: nif_v100_def stripNonDigits_idem)

lemma nif_v100_valid_formatted:
  "isValid (nif_v100 s) \<Longrightarrow> length (stripNonDigits s) = 9 \<and>
     formatted_of (nif_v100 s) = Some (slice (stripNonDigits s) 0 3 @ '' '' @ slice (stripNonDigits s) 3 6 @ '' '' @ slice (stripNonDigits s) 6 9)"
  by (simp add: nif_v100_def Let_def formatted_of_def detail_def split: if_splits)

lemma nif_v100_roundtrip:
  assumes "isValid (nif_v100 s)"
  shows "\<exists>f. formatted_of (nif_v100 s) = Some f \<and> stripNonDigits f = stripNonDigits s \<and> nif_v100 f = nif_v100 s"
proof -
  let ?d = "stripNonDigits s"
  let ?f = "slice ?d 0 3 @ '' '' @ slice ?d 3 6 @ '' '' @ slice ?d 6 9"
  from nif_v100_valid_formatted[OF assms] have len: "length ?d = 9" and f: "formatted_of (nif_v100 s) = Some ?f"
    by simp_all
  have "stripNonDigits ?f = slice ?d 0 3 @ slice ?d 3 6 @ slice ?d 6 9"
    by (simp only: stripNonDigits_append stripNonDigits_slice stripNonDigits_separators
          append_Nil append_Nil2)
  also have "\<dots> = ?d" using len by (simp add: slice_join slice_all)
  finally have strip: "stripNonDigits ?f = ?d" .
  then have "nif_v100 ?f = nif_v100 s"
    using nif_v100_digits_only[of ?f] nif_v100_digits_only[of s] by simp
  with f strip show ?thesis by blast
qed

lemma ssn_digits_only: "ssn (stripNonDigits s) = ssn s"
  by (simp add: ssn_def stripNonDigits_idem)

lemma ssn_valid_formatted:
  "isValid (ssn s) \<Longrightarrow> length (stripNonDigits s) = 9 \<and>
     formatted_of (ssn s) = Some (slice (stripNonDigits s) 0 3 @ ''-'' @ slice (stripNonDigits s) 3 5 @ ''-'' @ slice (stripNonDigits s) 5 9)"
  by (simp add: ssn_def Let_def formatted_of_def detail_def split: if_splits)

lemma ssn_roundtrip:
  assumes "isValid (ssn s)"
  shows "\<exists>f. formatted_of (ssn s) = Some f \<and> stripNonDigits f = stripNonDigits s \<and> ssn f = ssn s"
proof -
  let ?d = "stripNonDigits s"
  let ?f = "slice ?d 0 3 @ ''-'' @ slice ?d 3 5 @ ''-'' @ slice ?d 5 9"
  from ssn_valid_formatted[OF assms] have len: "length ?d = 9" and f: "formatted_of (ssn s) = Some ?f"
    by simp_all
  have "stripNonDigits ?f = slice ?d 0 3 @ slice ?d 3 5 @ slice ?d 5 9"
    by (simp only: stripNonDigits_append stripNonDigits_slice stripNonDigits_separators
          append_Nil append_Nil2)
  also have "\<dots> = ?d" using len by (simp add: slice_join slice_all)
  finally have strip: "stripNonDigits ?f = ?d" .
  then have "ssn ?f = ssn s"
    using ssn_digits_only[of ?f] ssn_digits_only[of s] by simp
  with f strip show ?thesis by blast
qed

lemma ein_digits_only: "ein (stripNonDigits s) = ein s"
  by (simp add: ein_def stripNonDigits_idem)

lemma ein_valid_formatted:
  "isValid (ein s) \<Longrightarrow> length (stripNonDigits s) = 9 \<and>
     formatted_of (ein s) = Some (slice (stripNonDigits s) 0 2 @ ''-'' @ slice (stripNonDigits s) 2 9)"
  unfolding ein_def Let_def
  by (simp add: formatted_of_def detail_def split: if_splits del: list.set set_simps)

lemma ein_roundtrip:
  assumes "isValid (ein s)"
  shows "\<exists>f. formatted_of (ein s) = Some f \<and> stripNonDigits f = stripNonDigits s \<and> ein f = ein s"
proof -
  let ?d = "stripNonDigits s"
  let ?f = "slice ?d 0 2 @ ''-'' @ slice ?d 2 9"
  from ein_valid_formatted[OF assms] have len: "length ?d = 9" and f: "formatted_of (ein s) = Some ?f"
    by simp_all
  have "stripNonDigits ?f = slice ?d 0 2 @ slice ?d 2 9"
    by (simp only: stripNonDigits_append stripNonDigits_slice stripNonDigits_separators
          append_Nil append_Nil2)
  also have "\<dots> = ?d" using len by (simp add: slice_join slice_all)
  finally have strip: "stripNonDigits ?f = ?d" .
  then have "ein ?f = ein s"
    using ein_digits_only[of ?f] ein_digits_only[of s] by simp
  with f strip show ?thesis by blast
qed

lemma nif_digits_only: "nif this (stripNonDigits s) = nif this s"
  by (simp add: nif_def stripNonDigits_idem)

lemma nif_valid_formatted:
  "nif this s = Inr r \<Longrightarrow> isValid r \<Longrightarrow> length (stripNonDigits s) = 9 \<and>
     formatted_of r = Some (slice (stripNonDigits s) 0 3 @ '' '' @ slice (stripNonDigits s) 3 6
        @ '' '' @ slice (stripNonDigits s) 6 9)"
  unfolding nif_def Let_def
  by (auto simp: formatted_of_def detail_def split: if_splits receiver.splits
        simp del: list.set set_simps)

lemma nif_roundtrip:
  assumes "nif this s = Inr r" and "isValid r"
  shows "\<exists>f. formatted_of r = Some f \<and> stripNonDigits f = stripNonDigits s \<and> nif this f = Inr r"
proof -
  let ?d = "stripNonDigits s"
  let ?f = "slice ?d 0 3 @ '' '' @ slice ?d 3 6 @ '' '' @ slice ?d 6 9"
  from nif_valid_formatted[OF assms] have len: "length ?d = 9" and f: "formatted_of r = Some ?f"
    by simp_all
  have "stripNonDigits ?f = slice ?d 0 3 @ slice ?d 3 6 @ slice ?d 6 9"
    by (simp only: stripNonDigits_append stripNonDigits_slice stripNonDigits_separators
          append_Nil append_Nil2)
  also have "\<dots> = ?d" using len by (simp add: slice_join slice_all)
  finally have strip: "stripNonDigits ?f = ?d" .
  then have "nif this ?f = nif this s"
    using nif_digits_only[of this ?f] nif_digits_only[of this s] by simp
  with f strip assms(1) show ?thesis by auto
qed


text \<open>
  C8. For each validator and every input on which it succeeds, the string
  \<open>details.formatted\<close> of the result has the digits of the input, so validating it again
  gives a valid result (the same result, in fact). \<open>nif\<close> of version 1.0.1 is taken with
  the receiver of the first call.
\<close>

theorem formatted_roundtrip:
  "(isValid (cpf s) \<longrightarrow> (\<exists>f. formatted_of (cpf s) = Some f \<and> isValid (cpf f)))
   \<and> (isValid (cnpj s) \<longrightarrow> (\<exists>f. formatted_of (cnpj s) = Some f \<and> isValid (cnpj f)))
   \<and> (\<forall>this r. nif this s = Inr r \<and> isValid r \<longrightarrow>
         (\<exists>f r'. formatted_of r = Some f \<and> nif this f = Inr r' \<and> isValid r'))
   \<and> (isValid (nif_v100 s) \<longrightarrow> (\<exists>f. formatted_of (nif_v100 s) = Some f \<and> isValid (nif_v100 f)))
   \<and> (isValid (nipc s) \<longrightarrow> (\<exists>f. formatted_of (nipc s) = Some f \<and> isValid (nipc f)))
   \<and> (isValid (ssn s) \<longrightarrow> (\<exists>f. formatted_of (ssn s) = Some f \<and> isValid (ssn f)))
   \<and> (isValid (ein s) \<longrightarrow> (\<exists>f. formatted_of (ein s) = Some f \<and> isValid (ein f)))"
proof -
  have 1: "isValid (cpf s) \<longrightarrow> (\<exists>f. formatted_of (cpf s) = Some f \<and> isValid (cpf f))"
    using cpf_roundtrip[of s] by auto
  have 2: "isValid (cnpj s) \<longrightarrow> (\<exists>f. formatted_of (cnpj s) = Some f \<and> isValid (cnpj f))"
    using cnpj_roundtrip[of s] by auto
  have 3: "\<forall>this r. nif this s = Inr r \<and> isValid r \<longrightarrow>
         (\<exists>f r'. formatted_of r = Some f \<and> nif this f = Inr r' \<and> isValid r')"
    using nif_roundtrip[of _ s] by blast
  have 4: "isValid (nif_v100 s) \<longrightarrow> (\<exists>f. formatted_of (nif_v100 s) = Some f \<and> isValid (nif_v100 f))"
    using nif_v100_roundtrip[of s] by auto
  have 5: "isValid (nipc s) \<longrightarrow> (\<exists>f. formatted_of (nipc s) = Some f \<and> isValid (nipc f))"
    using nipc_roundtrip[of s] by auto
  have 6: "isValid (ssn s) \<longrightarrow> (\<exists>f. formatted_of (ssn s) = Some f \<and> isValid (ssn f))"
    using ssn_roundtrip[of s] by auto
  have 7: "isValid (ein s) \<longrightarrow> (\<exists>f. formatted_of (ein s) = Some f \<and> isValid (ein f))"
    using ein_roundtrip[of s] by auto
  from 1 2 3 4 5 6 7 show ?thesis by (intro conjI)
qed

lemma upt_12: "[0..<12] = [0, 1, 2, 3, 4, 5, 6, 7, 8, 9, 10, 11]"
  by (simp add: upt_rec)

lemma upt_13: "[0..<13] = [0, 1, 2, 3, 4, 5, 6, 7, 8, 9, 10, 11, 12]"
  by (simp add: upt_rec)

lemma cnpj_example_valid:
  "cnpj ''11222333000181'' = \<lparr>isValid = True, error = None,
      details = Some [(''formatted'', JStr ''11.222.333/0001-81''), (''type'', JStr ''company''),
                      (''country'', JStr ''BR'')]\<rparr>"
  by (simp add: cnpj_def stripNonDigits_def isDigit_def repeatedDigits_def Let_def upt_12 upt_13
        parseInt_def slice_def replicate_numeral)

lemma nipc_example_valid:
  "nipc ''501964843'' = \<lparr>isValid = True, error = None,
      details = Some [(''formatted'', JStr ''501 964 843''), (''type'', JStr ''company''),
                      (''country'', JStr ''PT'')]\<rparr>"
  by (simp add: nipc_def stripNonDigits_def isDigit_def repeatedDigits_def Let_def upt_8
        parseInt_def slice_def replicate_numeral charAt_def)

lemma nif_v100_example_valid:
  "nif_v100 ''123456789'' = \<lparr>isValid = True, error = None,
      details = Some [(''formatted'', JStr ''123 456 789''), (''type'', JStr ''personal''),
                      (''country'', JStr ''PT'')]\<rparr>"
  by (simp add: nif_v100_def stripNonDigits_def isDigit_def repeatedDigits_def Let_def upt_8
        parseInt_def slice_def replicate_numeral charAt_def)

lemma ein_example_valid:
  "ein ''123456789'' = \<lparr>isValid = True, error = None,
      details = Some [(''formatted'', JStr ''12-3456789''), (''type'', JStr ''company''),
                      (''country'', JStr ''US''),
                      (''parts'', JObj [(''prefix'', JStr ''12''), (''suffix'', JStr ''3456789'')])]\<rparr>"
  by (simp add: ein_def stripNonDigits_def isDigit_def repeatedDigits_def Let_def
        slice_def replicate_numeral)

theorem formatted_roundtrip_witness:
  "isValid (cpf ''11144477735'') \<and> isValid (cpf ''111.444.777-35'')
   \<and> isValid (cnpj ''11222333000181'') \<and> isValid (cnpj ''11.222.333/0001-81'')
   \<and> (\<exists>r. nif This_PortugalRules ''123456789'' = Inr r \<and> isValid r)
   \<and> (\<exists>r'. nif This_PortugalRules ''123 456 789'' = Inr r' \<and> isValid r')
   \<and> isValid (nif_v100 ''123456789'') \<and> isValid (nif_v100 ''123 456 789'')
   \<and> isValid (nipc ''501964843'') \<and> isValid (nipc ''501 964 843'')
   \<and> isValid (ssn ''123456789'') \<and> isValid (ssn ''123-45-6789'')
   \<and> isValid (ein ''123456789'') \<and> isValid (ein ''12-3456789'')"
proof -
  have 1: "isValid (cpf ''11144477735'') \<and> isValid (cpf ''111.444.777-35'')"
    using formatted_roundtrip[of "''11144477735''"]
    by (simp add: cpf_example_valid formatted_of_def detail_def)
  have 2: "isValid (cnpj ''11222333000181'') \<and> isValid (cnpj ''11.222.333/0001-81'')"
    using formatted_roundtrip[of "''11222333000181''"]
    by (simp add: cnpj_example_valid formatted_of_def detail_def)
  have 3: "(\<exists>r. nif This_PortugalRules ''123456789'' = Inr r \<and> isValid r)
      \<and> (\<exists>r'. nif This_PortugalRules ''123 456 789'' = Inr r' \<and> isValid r')"
    using formatted_roundtrip[of "''123456789''", THEN conjunct2, THEN conjunct2, THEN conjunct1,
            rule_format, of This_PortugalRules, OF conjI, OF nif_example_personal]
    by (simp add: nif_example_personal formatted_of_def detail_def)
  have 4: "isValid (nif_v100 ''123456789'') \<and> isValid (nif_v100 ''123 456 789'')"
    using formatted_roundtrip[of "''123456789''"]
    by (simp add: nif_v100_example_valid formatted_of_def detail_def)
  have 5: "isValid (nipc ''501964843'') \<and> isValid (nipc ''501 964 843'')"
    using formatted_roundtrip[of "''501964843''"]
    by (simp add: nipc_example_valid formatted_of_def detail_def)
  have 6: "isValid (ssn ''123456789'') \<and> isValid (ssn ''123-45-6789'')"
    using formatted_roundtrip[of "''123456789''"]
    by (simp add: ssn_example_valid formatted_of_def detail_def)
  have 7: "isValid (ein ''123456789'') \<and> isValid (ein ''12-3456789'')"
    using formatted_roundtrip[of "''123456789''"]
    by (simp add: ein_example_valid formatted_of_def detail_def)
  from 1 2 3 4 5 6 7 show ?thesis by (intro conjI) simp_all
qed

section \<open>NIF documents through the dispatcher\<close>

lemma ValidatorInstance_v100_rules:
  "rules ValidatorInstance_v100 ''pt'' = Some PortugalRules_v100"
  by (simp add: ValidatorInstance_v100_def registerRules_def toLowerCase_examples)

lemma validate_nif_entity:
  "validate ValidatorInstance ''501964843'' ''pt'' ''nif'' =
     \<lparr>isValid = False,
      error = Some (''Erro durante valida'' @ [c_cedilla, a_tilde]
                    @ ''o: Cannot read properties of undefined (reading ''
                    @ [CHR 0x27] @ ''getEntityType'' @ [CHR 0x27] @ '')''),
      details = None, documentType = None, countryCode = None\<rparr>"
  by (simp add: validate_def toLowerCase_examples ValidatorInstance_rules PortugalRules_def
        nif_without_receiver_throws)

lemma nif_without_receiver_throws_personal:
  "nif This_undefined ''123456789'' =
     Inl (TypeError (''Cannot read properties of undefined (reading '' @ [CHR 0x27]
                     @ ''getEntityType'' @ [CHR 0x27] @ '')''))"
  by (simp add: nif_def stripNonDigits_def isDigit_def repeatedDigits_def Let_def slice_def
        replicate_numeral charAt_def upt_8 parseInt_def getEntityType_def)

lemma validate_nif_personal:
  "validate ValidatorInstance ''123456789'' ''pt'' ''nif'' =
     \<lparr>isValid = False,
      error = Some (''Erro durante valida'' @ [c_cedilla, a_tilde]
                    @ ''o: Cannot read properties of undefined (reading ''
                    @ [CHR 0x27] @ ''getEntityType'' @ [CHR 0x27] @ '')''),
      details = None, documentType = None, countryCode = None\<rparr>"
  by (simp add: validate_def toLowerCase_examples ValidatorInstance_rules PortugalRules_def
        nif_without_receiver_throws_personal)

lemma validate_v100_nif_entity:
  "validate ValidatorInstance_v100 ''501964843'' ''pt'' ''nif'' =
     \<lparr>isValid = False, error = Some ''Personal NIF must start with 1, 2 or 3'',
      details = Some [(''firstDigit'', JStr ''5''),
                      (''validFirstDigits'', JArr [JStr ''1'', JStr ''2'', JStr ''3''])],
      documentType = Some ''nif'', countryCode = Some ''pt''\<rparr>"
  by (simp add: validate_def toLowerCase_examples ValidatorInstance_v100_rules
        PortugalRules_v100_def nif_v100_rejects_entities)

lemma nif_entity_premises:
  "length (stripNonDigits ''501964843'') = 9"
  "stripNonDigits ''501964843'' \<noteq> replicate 9 (CHR ''5'')"
  "stripNonDigits ''501964843'' ! 0 = CHR ''5''"
  "check_digit_spec [9, 8, 7, 6, 5, 4, 3, 2] (take 8 (stripNonDigits ''501964843'')) = (184, 8, 3)"
  "parseInt (stripNonDigits ''501964843'' ! 8) = 3"
  by (simp_all add: stripNonDigits_def isDigit_def replicate_numeral check_digit_spec_def
        parseInt_def Let_def)

text \<open>
  C2. The code does not do what the claim says of the NIF \<open>501964843\<close>: nine digits, not
  all identical, first digit 5, and check digit 3 equal to its last digit, so the claim
  makes it valid with category public_entity. \<open>nif\<close> of version 1.0.1 gives that result
  only when it is called on its rule object. \<open>Validator.validate\<close>, the one caller of the
  validators, calls the function value without a receiver: \<open>this.getEntityType\<close> throws,
  and the document is reported invalid with the message of the exception; the same
  happens to \<open>123456789\<close>, the valid NIF of the specification. The module of version
  1.0.0 rejects \<open>501964843\<close> for its first digit.
\<close>

theorem nif_valid_document_reported_invalid:
  "length (stripNonDigits ''501964843'') = 9
   \<and> stripNonDigits ''501964843'' \<noteq> replicate 9 (CHR ''5'')
   \<and> stripNonDigits ''501964843'' ! 0 = CHR ''5''
   \<and> check_digit_spec [9, 8, 7, 6, 5, 4, 3, 2] (take 8 (stripNonDigits ''501964843'')) = (184, 8, 3)
   \<and> parseInt (stripNonDigits ''501964843'' ! 8) = 3
   \<and> nif This_PortugalRules ''501964843'' =
        Inr \<lparr>isValid = True, error = None,
             details = Some [(''formatted'', JStr ''501 964 843''),
                             (''type'', JStr ''public_entity''), (''country'', JStr ''PT'')]\<rparr>
   \<and> nif This_undefined ''501964843'' =
        Inl (TypeError (''Cannot read properties of undefined (reading '' @ [CHR 0x27]
                        @ ''getEntityType'' @ [CHR 0x27] @ '')''))
   \<and> validate ValidatorInstance ''501964843'' ''pt'' ''nif'' =
        \<lparr>isValid = False,
         error = Some (''Erro durante valida'' @ [c_cedilla, a_tilde]
                       @ ''o: Cannot read properties of undefined (reading ''
                       @ [CHR 0x27] @ ''getEntityType'' @ [CHR 0x27] @ '')''),
         details = None, documentType = None, countryCode = None\<rparr>
   \<and> validate ValidatorInstance ''123456789'' ''pt'' ''nif'' =
        \<lparr>isValid = False,
         error = Some (''Erro durante valida'' @ [c_cedilla, a_tilde]
                       @ ''o: Cannot read properties of undefined (reading ''
                       @ [CHR 0x27] @ ''getEntityType'' @ [CHR 0x27] @ '')''),
         details = None, documentType = None, countryCode = None\<rparr>
   \<and> nif_v100 ''501964843'' =
        \<lparr>isValid = False, error = Some ''Personal NIF must start with 1, 2 or 3'',
         details = Some [(''firstDigit'', JStr ''5''),
                         (''validFirstDigits'', JArr [JStr ''1'', JStr ''2'', JStr ''3''])]\<rparr>
   \<and> validate ValidatorInstance_v100 ''501964843'' ''pt'' ''nif'' =
        \<lparr>isValid = False, error = Some ''Personal NIF must start with 1, 2 or 3'',
         details = Some [(''firstDigit'', JStr ''5''),
                         (''validFirstDigits'', JArr [JStr ''1'', JStr ''2'', JStr ''3''])],
         documentType = Some ''nif'', countryCode = Some ''pt''\<rparr>"
  using nif_entity_premises nif_example_entity nif_without_receiver_throws validate_nif_entity
    validate_nif_personal nif_v100_rejects_entities validate_v100_nif_entity
  by (intro conjI)

end
